theory Spec2Isabelle
  imports Complex_Main
begin

section \<open>Floating-point values and numpy helpers\<close>

text \<open>
  The arrays of \<^verbatim>\<open>survey_pop.py\<close> hold IEEE doubles. A value is NaN, one of the two
  infinities, or a finite number. Finite arithmetic is taken exact (rounding is not
  modelled); what is modelled exactly is the part every mask of the pipeline rests
  on: every ordered comparison with NaN is false.
\<close>

datatype fl = NaN | MInf | Fin real | PInf

fun isnan :: "fl \<Rightarrow> bool" where
  "isnan NaN = True"
| "isnan _ = False"

text \<open>\<^verbatim>\<open>a < b\<close> and \<^verbatim>\<open>a <= b\<close> on doubles.\<close>

fun fl_lt :: "fl \<Rightarrow> fl \<Rightarrow> bool" where
  "fl_lt NaN _ = False"
| "fl_lt _ NaN = False"
| "fl_lt MInf MInf = False"
| "fl_lt MInf _ = True"
| "fl_lt (Fin a) MInf = False"
| "fl_lt (Fin a) (Fin b) = (a < b)"
| "fl_lt (Fin a) PInf = True"
| "fl_lt PInf _ = False"

fun fl_le :: "fl \<Rightarrow> fl \<Rightarrow> bool" where
  "fl_le NaN _ = False"
| "fl_le _ NaN = False"
| "fl_le MInf _ = True"
| "fl_le (Fin a) MInf = False"
| "fl_le (Fin a) (Fin b) = (a \<le> b)"
| "fl_le (Fin a) PInf = True"
| "fl_le PInf PInf = True"
| "fl_le PInf _ = False"

text \<open>\<^verbatim>\<open>a > b\<close> and \<^verbatim>\<open>a >= b\<close> are the same comparisons with the operands swapped.\<close>

definition fl_gt :: "fl \<Rightarrow> fl \<Rightarrow> bool" where
  "fl_gt a b = fl_lt b a"

definition fl_ge :: "fl \<Rightarrow> fl \<Rightarrow> bool" where
  "fl_ge a b = fl_le b a"

text \<open>
  Arithmetic on doubles: NaN propagates, \<open>inf - inf\<close>, \<open>0 * inf\<close>, \<open>0 / 0\<close> and
  \<open>inf / inf\<close> are NaN, and a non-zero number divided by zero is an infinity (numpy
  only warns, and \<^verbatim>\<open>__init__\<close> silences the warning). Zero is taken as \<open>+0.0\<close>.
\<close>

fun fl_add :: "fl \<Rightarrow> fl \<Rightarrow> fl" where
  "fl_add NaN _ = NaN"
| "fl_add _ NaN = NaN"
| "fl_add (Fin a) (Fin b) = Fin (a + b)"
| "fl_add PInf MInf = NaN"
| "fl_add MInf PInf = NaN"
| "fl_add PInf _ = PInf"
| "fl_add _ PInf = PInf"
| "fl_add MInf _ = MInf"
| "fl_add _ MInf = MInf"

fun fl_mul :: "fl \<Rightarrow> fl \<Rightarrow> fl" where
  "fl_mul NaN _ = NaN"
| "fl_mul _ NaN = NaN"
| "fl_mul (Fin a) (Fin b) = Fin (a * b)"
| "fl_mul (Fin a) PInf = (if a = 0 then NaN else if 0 < a then PInf else MInf)"
| "fl_mul (Fin a) MInf = (if a = 0 then NaN else if 0 < a then MInf else PInf)"
| "fl_mul PInf (Fin b) = (if b = 0 then NaN else if 0 < b then PInf else MInf)"
| "fl_mul MInf (Fin b) = (if b = 0 then NaN else if 0 < b then MInf else PInf)"
| "fl_mul PInf PInf = PInf"
| "fl_mul PInf MInf = MInf"
| "fl_mul MInf PInf = MInf"
| "fl_mul MInf MInf = PInf"

fun fl_div :: "fl \<Rightarrow> fl \<Rightarrow> fl" where
  "fl_div NaN _ = NaN"
| "fl_div _ NaN = NaN"
| "fl_div (Fin a) (Fin b) =
     (if b = 0 then (if a = 0 then NaN else if 0 < a then PInf else MInf) else Fin (a / b))"
| "fl_div (Fin a) PInf = Fin 0"
| "fl_div (Fin a) MInf = Fin 0"
| "fl_div PInf (Fin b) = (if 0 \<le> b then PInf else MInf)"
| "fl_div MInf (Fin b) = (if 0 \<le> b then MInf else PInf)"
| "fl_div PInf _ = NaN"
| "fl_div MInf _ = NaN"

text \<open>
  The order numpy sorts and searches doubles by: NaN is placed after every other
  value (\<^verbatim>\<open>a < b || (b != b && a == a)\<close> in numpy's \<^verbatim>\<open>npy_sort\<close>).
\<close>

definition np_lt :: "fl \<Rightarrow> fl \<Rightarrow> bool" where
  "np_lt a b = (fl_lt a b \<or> (isnan b \<and> \<not> isnan a))"

text \<open>
  \<^verbatim>\<open>np.searchsorted(arr, key)\<close> with the default \<^verbatim>\<open>side='left'\<close>: numpy's binary
  search, which halves the interval \<^verbatim>\<open>[min_idx, max_idx)\<close> until it is empty.
\<close>

function binsearch_left :: "fl list \<Rightarrow> fl \<Rightarrow> nat \<Rightarrow> nat \<Rightarrow> nat" where
  "binsearch_left arr key min_idx max_idx =
     (if min_idx < max_idx
      then (let mid_idx = min_idx + (max_idx - min_idx) div 2
            in if np_lt (arr ! mid_idx) key
               then binsearch_left arr key (mid_idx + 1) max_idx
               else binsearch_left arr key min_idx mid_idx)
      else min_idx)"
  by pat_completeness auto
termination
  by (relation "measure (\<lambda>(arr, key, lo, hi). hi - lo)") auto

declare binsearch_left.simps [simp del]

definition searchsorted :: "fl list \<Rightarrow> fl \<Rightarrow> nat" where
  "searchsorted arr key = binsearch_left arr key 0 (length arr)"

text \<open>\<^verbatim>\<open>np.repeat(xs, counts)\<close>: each element repeated by its own count.\<close>

definition np_repeat :: "'a list \<Rightarrow> nat list \<Rightarrow> 'a list" where
  "np_repeat xs counts = concat (map (\<lambda>(x, n). replicate n x) (zip xs counts))"

text \<open>\<^verbatim>\<open>np.cumsum\<close>: the running sums.\<close>

fun cumsum_from :: "nat \<Rightarrow> nat list \<Rightarrow> nat list" where
  "cumsum_from acc [] = []"
| "cumsum_from acc (x # xs) = (acc + x) # cumsum_from (acc + x) xs"

definition cumsum :: "nat list \<Rightarrow> nat list" where
  "cumsum xs = cumsum_from 0 xs"

text \<open>
  The slice assignment \<^verbatim>\<open>xs[s:e] = vs\<close> on an array, for \<^verbatim>\<open>s <= e <= len(xs)\<close> and
  \<^verbatim>\<open>len(vs) == e - s\<close> (numpy raises when the lengths differ; in \<open>fast_where\<close> they
  agree, see \<open>fast_where_cols_concat\<close>).
\<close>

definition slice_assign :: "'a list \<Rightarrow> nat \<Rightarrow> nat \<Rightarrow> 'a list \<Rightarrow> 'a list" where
  "slice_assign xs s e vs = take s xs @ vs @ drop e xs"

datatype error = ValueError string | IndexError string | ZeroDivisionError

section \<open>WindowSearch: \<^verbatim>\<open>fast_where\<close>\<close>

text \<open>
  The loop \<^verbatim>\<open>for i, e in enumerate(cum_bursts[1:]): cols[cum_bursts[i]:e] = np.arange(left[unique_rows[i]], right[unique_rows[i]])\<close>,
  run over the indices \<open>is\<close>.
\<close>

fun fill_cols :: "nat list \<Rightarrow> nat list \<Rightarrow> nat list \<Rightarrow> nat list \<Rightarrow> nat list \<Rightarrow> nat list \<Rightarrow> nat list" where
  "fill_cols left right unique_rows cum_bursts [] cols = cols"
| "fill_cols left right unique_rows cum_bursts (i # is) cols =
     fill_cols left right unique_rows cum_bursts is
       (slice_assign cols (cum_bursts ! i) (cum_bursts ! (i + 1))
          [left ! (unique_rows ! i) ..< right ! (unique_rows ! i)])"

text \<open>
  \<^verbatim>\<open>fast_where(a, min_v, max_v)\<close>. \<^verbatim>\<open>np.apply_along_axis\<close> raises ValueError on a
  matrix with no rows (an iteration dimension of 0); \<^verbatim>\<open>np.where(left <= right)[0]\<close>
  lists the row numbers in ascending order.
\<close>

definition fast_where :: "fl list list \<Rightarrow> fl \<Rightarrow> fl \<Rightarrow> error + (nat list \<times> nat list)" where
  "fast_where a min_v max_v =
     (if a = [] then Inl (ValueError ''Cannot apply_along_axis when any iteration dimensions are 0'')
      else
        let left = map (\<lambda>row. searchsorted row min_v) a;
            right = map (\<lambda>row. searchsorted row max_v) a;
            unique_rows = filter (\<lambda>i. left ! i \<le> right ! i) [0 ..< length a];
            bursts_per_row = map (\<lambda>i. right ! i - left ! i) unique_rows;
            rows = np_repeat unique_rows bursts_per_row;
            cols0 = replicate (sum_list bursts_per_row) (0::nat);
            cum_bursts = 0 # cumsum bursts_per_row;
            cols = fill_cols left right unique_rows cum_bursts
                     [0 ..< length cum_bursts - 1] cols0
        in Inr (rows, cols))"

text \<open>
  \<^verbatim>\<open>np.where(mask)\<close> on a 2-D boolean mask: the row and the column numbers of the true
  cells, in row-major order.
\<close>

definition np_where2 :: "('a \<Rightarrow> bool) \<Rightarrow> 'a list list \<Rightarrow> nat list \<times> nat list" where
  "np_where2 p a =
     (let hits = concat (map (\<lambda>r. map (\<lambda>c. (r, c)) (filter (\<lambda>c. p (a ! r ! c)) [0 ..< length (a ! r)]))
                           [0 ..< length a])
      in (map fst hits, map snd hits))"

text \<open>
  The brute-force search of the docstring of \<^verbatim>\<open>fast_where\<close> and of the specification:
  \<^verbatim>\<open>np.where((a >= min_v) & (a <= max_v))\<close>.
\<close>

definition brute_force_where :: "fl list list \<Rightarrow> fl \<Rightarrow> fl \<Rightarrow> nat list \<times> nat list" where
  "brute_force_where a min_v max_v = np_where2 (\<lambda>x. fl_ge x min_v \<and> fl_le x max_v) a"


text \<open>A row is sorted for numpy: ascending, NaNs last.\<close>

definition row_sorted :: "fl list \<Rightarrow> bool" where
  "row_sorted row = sorted_wrt (\<lambda>x y. \<not> np_lt y x) row"

section \<open>Rate counters, the survey and the population\<close>

text \<open>
  Modelled from the spec: the class \<^verbatim>\<open>Rates\<close> (\<^verbatim>\<open>frbpoppy.rates\<close>) is not in the source
  file. The spec gives it the scalar counters total, out_of_region, too_late,
  too_faint, out_of_pointing, detected and the derived name, day_count,
  volume_fraction and area_scaling_factor; the pipeline increments the counters, so
  a fresh \<^verbatim>\<open>Rates(...)\<close> holds 0 in each (and the neutral factor 1).
\<close>

record rates =
  tot :: int
  out :: int
  late :: int
  faint :: int
  pointing :: int
  det :: int
  vol :: real
  days :: real
  name :: string
  f_area :: real

definition Rates :: rates where
  "Rates = \<lparr>tot = 0, out = 0, late = 0, faint = 0, pointing = 0, det = 0,
            vol = 0, days = 0, name = [], f_area = 1\<rparr>"

text \<open>
  The survey (\<^verbatim>\<open>frbpoppy.survey\<close>, an external collaborator): its scalar settings and
  its pure array functions, each taken elementwise. \<open>survey_n_days\<close> is
  \<^verbatim>\<open>survey.n_days\<close> (None when unset), \<open>pointings\<close> the (ra, dec) pairs
  \<^verbatim>\<open>survey.gen_pointings()\<close> leaves in \<^verbatim>\<open>survey.pointings\<close> (\<^verbatim>\<open>survey.n_pointings\<close> is their
  number). \<open>calc_beam k\<close> is the k-th element of the random intensity and offset
  arrays of \<^verbatim>\<open>survey.calc_beam(shape=...)\<close>; \<open>calc_beam_rep\<close> is the intensity of
  \<^verbatim>\<open>survey.calc_beam(repeaters=True, ra, dec, ra_p, dec_p, lst)\<close>; \<open>calc_scint k\<close> is the
  k-th element of \<^verbatim>\<open>survey.calc_scint(t_scat, dist_co, gl, gb, snr)\<close>.
\<close>

record survey =
  survey_name :: string
  survey_n_days :: "real option"
  t_obs :: real
  snr_limit :: fl
  beam_size :: real
  pointings :: "(fl \<times> fl) list"
  in_region :: "fl \<Rightarrow> fl \<Rightarrow> fl \<Rightarrow> fl \<Rightarrow> bool"
  calc_dm_smear :: "fl \<Rightarrow> fl"
  calc_scat :: "fl \<Rightarrow> fl"
  calc_Ts :: "fl \<Rightarrow> fl \<Rightarrow> fl \<times> fl"
  calc_w_eff :: "fl \<Rightarrow> fl \<Rightarrow> fl option \<Rightarrow> fl"
  calc_s_peak :: "fl \<Rightarrow> fl \<Rightarrow> fl \<Rightarrow> fl \<Rightarrow> fl \<Rightarrow> fl \<Rightarrow> fl \<Rightarrow> fl \<Rightarrow> fl"
  calc_beam :: "nat \<Rightarrow> fl \<times> fl"
  calc_beam_rep :: "fl \<Rightarrow> fl \<Rightarrow> fl \<Rightarrow> fl \<Rightarrow> fl \<Rightarrow> fl"
  calc_fluence :: "fl \<Rightarrow> fl \<Rightarrow> fl"
  calc_snr :: "fl \<Rightarrow> fl \<Rightarrow> fl \<Rightarrow> fl"
  calc_scint :: "nat \<Rightarrow> fl \<Rightarrow> fl \<Rightarrow> fl \<Rightarrow> fl \<Rightarrow> fl \<Rightarrow> fl"

text \<open>
  What else the pipeline takes from outside the source file: the draws of
  \<^verbatim>\<open>np.random.random(n)\<close> (\<open>random k\<close> is the k-th, in \<open>[0, 1)\<close>), the draw of
  \<^verbatim>\<open>np.random.uniform(0, 360)\<close>, and the methods \<^verbatim>\<open>Rates.scale_by_area\<close> and
  \<^verbatim>\<open>Frbs.clean_up\<close>, which are taken as parameters.
\<close>

datatype arr = A1 "fl list" | A2 "fl list list"

text \<open>
  The frame of a one-off population (class \<^verbatim>\<open>Frbs\<close>: one 1-D array per attribute, all
  of one length) is the list of its rows. An attribute the pipeline has not assigned
  yet (None in Python) holds NaN; each is assigned before it is read. \<open>t_scat\<close> is
  the exception: it stays None unless scattering is asked for.
\<close>

record frb =
  ra :: fl
  dec :: fl
  gl :: fl
  gb :: fl
  dm :: fl
  z :: fl
  dist_co :: fl
  si :: fl
  lum_bol :: fl
  w_arr :: fl
  t_dm :: fl
  t_scat :: "fl option"
  T_sky :: fl
  T_sys :: fl
  w_eff :: fl
  s_peak :: fl
  offset :: fl
  fluence :: fl
  snr :: fl

text \<open>
  The frame of a repeater population, by columns: per-source attributes are 1-D, the
  burst epochs \<open>time\<close> are 2-D (sources by bursts, NaN-padded). The model covers
  populations with a luminosity per burst (\<^verbatim>\<open>lum_bol.ndim == 2\<close>), for which
  \<^verbatim>\<open>s_peak\<close>, \<^verbatim>\<open>fluence\<close> and \<^verbatim>\<open>snr\<close> are 2-D (the branches \<^verbatim>\<open>frbs.s_peak.ndim == 2\<close>);
  the widths \<open>w_arr\<close> and \<open>w_eff\<close> are 1-D or 2-D, as the source allows.
\<close>

record rfrbs =
  ra :: "fl list"
  dec :: "fl list"
  gl :: "fl list"
  gb :: "fl list"
  dm :: "fl list"
  z :: "fl list"
  dist_co :: "fl list"
  si :: "fl list"
  index :: "nat list"
  lum_bol :: "fl list list"
  w_arr :: arr
  time :: "fl list list"
  t_dm :: "fl list"
  t_scat :: "fl list option"
  T_sky :: "fl list"
  T_sys :: "fl list"
  w_eff :: arr
  s_peak :: "fl list list"
  fluence :: "fl list list"
  snr :: "fl list list"

record ext =
  random :: "nat \<Rightarrow> real"
  uniform :: real
  rates_scale_by_area :: "rates \<Rightarrow> rates"
  clean_up :: "rfrbs \<Rightarrow> rfrbs"

datatype frame = OneOffs "frb list" | Repeaters rfrbs

text \<open>
  The cosmic population handed to \<^verbatim>\<open>SurveyPopulation\<close>. \<open>frbs = None\<close> is a population
  that was never generated (\<^verbatim>\<open>cosmic_pop.frbs.ra is None\<close>). A population with the
  2-D \<open>time\<close> field is the repeater population: \<^verbatim>\<open>cosmic_pop.repeaters\<close> is read off
  its frame.
\<close>

record cosmic_pop =
  pop_name :: string
  pop_vol_co_max :: real
  pop_n_days :: real
  n_srcs :: int
  f_min :: fl
  f_max :: fl
  frbs :: "frame option"

definition pop_repeaters :: "cosmic_pop \<Rightarrow> bool" where
  "pop_repeaters cosmic_pop =
     (case frbs cosmic_pop of Some (Repeaters f) \<Rightarrow> True | _ \<Rightarrow> False)"

text \<open>
  The attributes of \<^verbatim>\<open>self\<close>. \<open>burst_rate\<close>, \<open>n_brst_pr_src\<close> and the two flag arrays
  are only assigned, and only read, on the repeater path.
\<close>

record 'f survey_pop =
  name :: string
  vol_co_max :: real
  n_days :: real
  repeaters :: bool
  frbs :: 'f
  source_rate :: rates
  burst_rate :: rates
  scat :: bool
  scin :: bool
  scale_by_area :: bool
  n_brst_pr_src :: "nat list"
  srcs_not_in_pointing :: "bool list"
  srcs_not_bright :: "bool list"

text \<open>
  Modelled from the spec: \<^verbatim>\<open>Frbs.apply\<close> (\<^verbatim>\<open>frbpoppy.frbs\<close>) is not in the source file.
  The spec: the frame is narrowed by boolean-mask application, rows removed for
  per-source masks. \<open>select msk xs\<close> is numpy's \<^verbatim>\<open>xs[msk]\<close>.
\<close>

definition select :: "bool list \<Rightarrow> 'a list \<Rightarrow> 'a list" where
  "select msk xs = map snd (filter fst (zip msk xs))"

definition count_nonzero :: "bool list \<Rightarrow> int" where
  "count_nonzero msk = int (length (filter id msk))"

section \<open>Rate normalisation: \<^verbatim>\<open>calc_rates\<close>\<close>

definition area_sky :: real where
  "area_sky = 4 * pi * (180 / pi)\<^sup>2"

text \<open>
  The local \<^verbatim>\<open>f_area\<close> of \<^verbatim>\<open>calc_rates\<close> (lines 362-369).
\<close>

definition calc_f_area :: "survey \<Rightarrow> rates \<Rightarrow> real" where
  "calc_f_area survey sr =
     (let f_area = beam_size survey * real_of_int (tot sr);
          inside = det sr + late sr + faint sr
      in if inside > 0 then f_area / (real_of_int inside * area_sky) else 1)"

text \<open>
  \<^verbatim>\<open>calc_rates\<close>. \<^verbatim>\<open>n_days\<close> and \<^verbatim>\<open>vol_co_max\<close> are Python numbers, whose division by
  zero raises ZeroDivisionError.
\<close>

definition calc_rates :: "ext \<Rightarrow> survey \<Rightarrow> 'f survey_pop \<Rightarrow> error + 'f survey_pop" where
  "calc_rates e survey self =
     (let f_area = calc_f_area survey (source_rate self) in
      if n_days self = 0 \<or> vol_co_max self * (365.25 / n_days self) = 0
      then Inl ZeroDivisionError
      else
        let sr = (source_rate self)
                   \<lparr>days := n_days self, rates.name := name self,
                    vol := real_of_int (tot (source_rate self))
                             / (vol_co_max self * (365.25 / n_days self))\<rparr>;
            br = (burst_rate self)
                   \<lparr>days := n_days self, rates.name := name self,
                    vol := real_of_int (tot (burst_rate self))
                             / (vol_co_max self * (365.25 / n_days self))\<rparr>;
            self1 = self\<lparr>source_rate := sr\<rparr>;
            self2 = (if repeaters self then self1\<lparr>burst_rate := br\<rparr> else self1)
        in Inr (if \<not> repeaters self
                then self2\<lparr>source_rate := rates_scale_by_area e (sr\<lparr>f_area := f_area\<rparr>)\<rparr>
                else self2))"

section \<open>One-off detection: \<^verbatim>\<open>det_oneoffs\<close>\<close>

text \<open>
  Lines 132-140 on the k-th row: the beam attenuates the peak flux, then fluence and
  SNR are computed from the attenuated peak flux.
\<close>

definition beam_oneoff :: "survey \<Rightarrow> nat \<times> frb \<Rightarrow> frb" where
  "beam_oneoff survey = (\<lambda>(k, s).
     let (int_pro, offset') = calc_beam survey k;
         s_peak' = fl_mul (frb.s_peak s) int_pro
     in s\<lparr>frb.s_peak := s_peak', frb.offset := offset',
          frb.fluence := calc_fluence survey s_peak' (frb.w_eff s),
          frb.snr := calc_snr survey s_peak' (frb.w_eff s) (frb.T_sys s)\<rparr>)"

text \<open>Lines 143-151 on the k-th row: the scattering time is computed if it is missing.\<close>

definition scint_oneoff :: "survey \<Rightarrow> nat \<times> frb \<Rightarrow> frb" where
  "scint_oneoff survey = (\<lambda>(k, s).
     let t_scat' = (case frb.t_scat s of None \<Rightarrow> calc_scat survey (frb.dm s) | Some t \<Rightarrow> t)
     in s\<lparr>frb.t_scat := Some t_scat',
          frb.snr := calc_scint survey k t_scat' (frb.dist_co s) (frb.gl s) (frb.gb s) (frb.snr s)\<rparr>)"

text \<open>\<^verbatim>\<open>snr_mask = (frbs.snr >= survey.snr_limit)\<close>.\<close>

definition snr_mask_oneoff :: "survey \<Rightarrow> frb list \<Rightarrow> bool list" where
  "snr_mask_oneoff survey rows = map (\<lambda>s. fl_ge (frb.snr s) (snr_limit survey)) rows"

text \<open>\<^verbatim>\<open>limit = 1/(1+frbs.z)\<close> and \<^verbatim>\<open>rate_mask = np.random.random(len(frbs.z)) <= limit\<close>.\<close>

definition limit_oneoff :: "frb \<Rightarrow> fl" where
  "limit_oneoff s = fl_div (Fin 1) (fl_add (Fin 1) (frb.z s))"

definition rate_mask_oneoff :: "ext \<Rightarrow> frb list \<Rightarrow> bool list" where
  "rate_mask_oneoff e rows =
     map (\<lambda>(k, s). fl_le (Fin (random e k)) (limit_oneoff s)) (enumerate 0 rows)"

text \<open>Lines 132-155: the rows that pass the SNR threshold.\<close>

definition snr_survivors :: "survey \<Rightarrow> (frb list) survey_pop \<Rightarrow> frb list" where
  "snr_survivors survey self =
     (let rows1 = map (beam_oneoff survey) (enumerate 0 (frbs self));
          rows2 = (if scin self then map (scint_oneoff survey) (enumerate 0 rows1) else rows1)
      in select (snr_mask_oneoff survey rows2) rows2)"

text \<open>Lines 128-165 of \<^verbatim>\<open>det_oneoffs\<close>: detection and its counters.\<close>

definition detect_oneoffs :: "ext \<Rightarrow> survey \<Rightarrow> (frb list) survey_pop \<Rightarrow> (frb list) survey_pop" where
  "detect_oneoffs e survey self =
     (let rows1 = map (beam_oneoff survey) (enumerate 0 (frbs self));
          rows2 = (if scin self then map (scint_oneoff survey) (enumerate 0 rows1) else rows1);
          snr_mask = snr_mask_oneoff survey rows2;
          rows3 = select snr_mask rows2;
          sr1 = (source_rate self)\<lparr>faint := int (length snr_mask) - count_nonzero snr_mask\<rparr>;
          rate_mask = rate_mask_oneoff e rows3;
          rows4 = select rate_mask rows3;
          sr2 = sr1\<lparr>late := int (length rate_mask)\<rparr>;
          sr3 = sr2\<lparr>late := late sr2 - count_nonzero rate_mask\<rparr>;
          sr4 = sr3\<lparr>det := int (length rows4)\<rparr>
      in self\<lparr>frbs := rows4, source_rate := sr4\<rparr>)"

text \<open>\<^verbatim>\<open>det_oneoffs\<close>: detection, then the rates if scaling by area is asked for (lines 167-169).\<close>

definition det_oneoffs :: "ext \<Rightarrow> survey \<Rightarrow> (frb list) survey_pop \<Rightarrow> error + (frb list) survey_pop" where
  "det_oneoffs e survey self =
     (let self1 = detect_oneoffs e survey self
      in if scale_by_area self1 then calc_rates e survey self1 else Inr self1)"

section \<open>Construction: \<^verbatim>\<open>SurveyPopulation.__init__\<close>\<close>

text \<open>Lines 45-59: the attributes of a fresh \<^verbatim>\<open>self\<close>, with the frame \<open>f\<close> deep-copied.\<close>

definition init_self :: "cosmic_pop \<Rightarrow> survey \<Rightarrow> bool \<Rightarrow> bool \<Rightarrow> bool \<Rightarrow> 'f \<Rightarrow> 'f survey_pop" where
  "init_self cosmic_pop survey scat' scin' scale_by_area' f =
     \<lparr>name = pop_name cosmic_pop @ ''_'' @ survey_name survey,
      vol_co_max = pop_vol_co_max cosmic_pop,
      n_days = pop_n_days cosmic_pop,
      repeaters = pop_repeaters cosmic_pop,
      frbs = f,
      source_rate = Rates,
      burst_rate = Rates,
      scat = scat',
      scin = scin',
      scale_by_area = scale_by_area',
      n_brst_pr_src = [],
      srcs_not_in_pointing = [],
      srcs_not_bright = []\<rparr>"

text \<open>Lines 61-63: \<^verbatim>\<open>survey.n_days\<close> defaults to the population's.\<close>

definition set_n_days :: "cosmic_pop \<Rightarrow> survey \<Rightarrow> survey" where
  "set_n_days cosmic_pop survey =
     (case survey_n_days survey of
        None \<Rightarrow> survey\<lparr>survey_n_days := Some (pop_n_days cosmic_pop)\<rparr>
      | Some d \<Rightarrow> survey)"

text \<open>Lines 94-115 on one row of a one-off frame.\<close>

definition observe_oneoff :: "cosmic_pop \<Rightarrow> survey \<Rightarrow> bool \<Rightarrow> frb \<Rightarrow> frb" where
  "observe_oneoff cosmic_pop survey scat' s =
     (let t_dm' = calc_dm_smear survey (frb.dm s);
          t_scat' = (if scat' then Some (calc_scat survey (frb.dm s)) else frb.t_scat s);
          (T_sky', T_sys') = calc_Ts survey (frb.gl s) (frb.gb s);
          w_eff' = calc_w_eff survey (frb.w_arr s) t_dm' t_scat';
          s_peak' = calc_s_peak survey (frb.si s) (frb.lum_bol s) (frb.z s) (frb.dist_co s)
                      (frb.w_arr s) w_eff' (f_min cosmic_pop) (f_max cosmic_pop)
      in s\<lparr>frb.t_dm := t_dm', frb.t_scat := t_scat', frb.T_sky := T_sky', frb.T_sys := T_sys',
           frb.w_eff := w_eff', frb.s_peak := s_peak'\<rparr>)"

text \<open>
  Lines 71-115 for a one-off population (\<^verbatim>\<open>self.repeaters\<close> false), then the call of
  \<^verbatim>\<open>det_oneoffs\<close> (line 121).
\<close>

definition region_mask_oneoff :: "survey \<Rightarrow> frb list \<Rightarrow> bool list" where
  "region_mask_oneoff survey rows =
     map (\<lambda>s. in_region survey (frb.ra s) (frb.dec s) (frb.gl s) (frb.gb s)) rows"

definition prepare_oneoffs :: "cosmic_pop \<Rightarrow> survey \<Rightarrow> (frb list) survey_pop \<Rightarrow> (frb list) survey_pop" where
  "prepare_oneoffs cosmic_pop survey self =
     (let sr = (source_rate self)\<lparr>tot := n_srcs cosmic_pop\<rparr>;
          region_mask = region_mask_oneoff survey (frbs self);
          rows = select region_mask (frbs self);
          sr1 = sr\<lparr>out := int (length (filter Not region_mask))\<rparr>;
          rows1 = map (observe_oneoff cosmic_pop survey (scat self)) rows
      in self\<lparr>frbs := rows1, source_rate := sr1\<rparr>)"

definition init_oneoffs ::
  "ext \<Rightarrow> cosmic_pop \<Rightarrow> survey \<Rightarrow> (frb list) survey_pop \<Rightarrow> error + (frb list) survey_pop" where
  "init_oneoffs e cosmic_pop survey self =
     det_oneoffs e survey (prepare_oneoffs cosmic_pop survey self)"

section \<open>Repeater detection: \<^verbatim>\<open>_iter_pointings\<close> and \<^verbatim>\<open>det_repeaters\<close>\<close>

subsection \<open>Array helpers\<close>

text \<open>
  \<^verbatim>\<open>np.unique(xs)\<close> (sorted, without duplicates) and
  \<^verbatim>\<open>np.unique(xs, return_counts=True)\<close>.
\<close>

definition np_unique :: "nat list \<Rightarrow> nat list" where
  "np_unique xs = sort (remdups xs)"

definition unique_counts :: "nat list \<Rightarrow> nat list \<times> nat list" where
  "unique_counts xs = (let u = np_unique xs in (u, map (\<lambda>x. count_list xs x) u))"

text \<open>
  Reading and writing through index arrays: \<^verbatim>\<open>xs[ix]\<close>, \<^verbatim>\<open>m[(rows, cols)]\<close>,
  \<^verbatim>\<open>xs[ix] = v\<close>, \<^verbatim>\<open>m[(rows, cols)] = vs\<close> and \<^verbatim>\<open>m[(rows, cols)] = v\<close>. (An index out of
  range raises in numpy; the indices the pipeline uses come from \<open>fast_where\<close> on
  \<open>time\<close> and are in range of every array of its shape.)
\<close>

definition get1 :: "'a list \<Rightarrow> nat list \<Rightarrow> 'a list" where
  "get1 xs ix = map (\<lambda>i. xs ! i) ix"

definition get2 :: "'a list list \<Rightarrow> nat list \<times> nat list \<Rightarrow> 'a list" where
  "get2 m ix = map (\<lambda>(r, c). m ! r ! c) (zip (fst ix) (snd ix))"

definition set1 :: "'a list \<Rightarrow> nat list \<Rightarrow> 'a \<Rightarrow> 'a list" where
  "set1 xs ix v = foldl (\<lambda>ys i. ys[i := v]) xs ix"

definition set2 :: "'a list list \<Rightarrow> nat list \<times> nat list \<Rightarrow> 'a list \<Rightarrow> 'a list list" where
  "set2 m ix vs =
     foldl (\<lambda>m' ((r, c), v). m'[r := (m' ! r)[c := v]]) m (zip (zip (fst ix) (snd ix)) vs)"

definition fill2 :: "'a list list \<Rightarrow> nat list \<times> nat list \<Rightarrow> 'a \<Rightarrow> 'a list list" where
  "fill2 m ix v = set2 m ix (replicate (length (fst ix)) v)"

definition map3 :: "('a \<Rightarrow> 'b \<Rightarrow> 'c \<Rightarrow> 'd) \<Rightarrow> 'a list \<Rightarrow> 'b list \<Rightarrow> 'c list \<Rightarrow> 'd list" where
  "map3 f xs ys zs = map (\<lambda>(x, y, z). f x y z) (zip xs (zip ys zs))"

text \<open>A width array read at the burst \<open>(r, c)\<close>, the per-source value broadcast.\<close>

definition arr_at :: "arr \<Rightarrow> nat \<Rightarrow> nat \<Rightarrow> fl" where
  "arr_at a r c = (case a of A1 xs \<Rightarrow> xs ! r | A2 m \<Rightarrow> m ! r ! c)"

subsection \<open>\<^verbatim>\<open>Frbs.apply\<close> on the repeater frame\<close>

text \<open>
  Modelled from the spec: \<^verbatim>\<open>Frbs.apply\<close> (\<^verbatim>\<open>frbpoppy.frbs\<close>) is not in the source file.
  The spec: rows are removed for per-source (1-D) masks; for per-burst (2-D) masks
  individual cells are invalidated to NaN, and a source that loses all its bursts is
  removed (it is what the source-level \<^verbatim>\<open>too_late\<close> counts).
\<close>

definition arr_rows :: "bool list \<Rightarrow> arr \<Rightarrow> arr" where
  "arr_rows msk a = (case a of A1 xs \<Rightarrow> A1 (select msk xs) | A2 m \<Rightarrow> A2 (select msk m))"

definition apply_rows :: "bool list \<Rightarrow> rfrbs \<Rightarrow> rfrbs" where
  "apply_rows msk f =
     f\<lparr>ra := select msk (ra f), dec := select msk (dec f), gl := select msk (gl f),
       gb := select msk (gb f), dm := select msk (dm f), z := select msk (z f),
       dist_co := select msk (dist_co f), si := select msk (si f),
       index := select msk (index f), lum_bol := select msk (lum_bol f),
       w_arr := arr_rows msk (w_arr f), time := select msk (time f),
       t_dm := select msk (t_dm f), t_scat := map_option (select msk) (t_scat f),
       T_sky := select msk (T_sky f), T_sys := select msk (T_sys f),
       w_eff := arr_rows msk (w_eff f), s_peak := select msk (s_peak f),
       fluence := select msk (fluence f), snr := select msk (snr f)\<rparr>"

definition nan_out :: "bool list list \<Rightarrow> fl list list \<Rightarrow> fl list list" where
  "nan_out msk2 m =
     map (\<lambda>(mrow, row). map (\<lambda>(b, x). if b then x else NaN) (zip mrow row)) (zip msk2 m)"

definition arr_nan_out :: "bool list list \<Rightarrow> arr \<Rightarrow> arr" where
  "arr_nan_out msk2 a = (case a of A1 xs \<Rightarrow> A1 xs | A2 m \<Rightarrow> A2 (nan_out msk2 m))"

definition apply_cells :: "bool list list \<Rightarrow> rfrbs \<Rightarrow> rfrbs" where
  "apply_cells msk2 f =
     apply_rows (map (\<lambda>mrow. list_ex id mrow) msk2)
       (f\<lparr>lum_bol := nan_out msk2 (lum_bol f), w_arr := arr_nan_out msk2 (w_arr f),
          time := nan_out msk2 (time f), w_eff := arr_nan_out msk2 (w_eff f),
          s_peak := nan_out msk2 (s_peak f), fluence := nan_out msk2 (fluence f),
          snr := nan_out msk2 (snr f)\<rparr>)"

subsection \<open>One pointing: \<^verbatim>\<open>_iter_pointings\<close>\<close>

text \<open>
  Lines 259-357 of \<^verbatim>\<open>_iter_pointings\<close> for a 2-D \<^verbatim>\<open>s_peak\<close>, from the index pair \<open>t_ix\<close>
  of the bursts in the time window (\<open>window_step\<close> below); it gives the updated
  \<^verbatim>\<open>self\<close> with the index pair \<^verbatim>\<open>(s_peak_ix[0], s_peak_ix[1])\<close>. The branch \<^verbatim>\<open>if self.scin\<close> (lines 339-348) is not
  entered: \<^verbatim>\<open>__init__\<close> raises for a repeater population with scintillation before
  detection starts.
\<close>

definition beam_int :: "survey \<Rightarrow> rfrbs \<Rightarrow> fl \<Rightarrow> fl \<Rightarrow> fl \<Rightarrow> nat list \<Rightarrow> fl list" where
  "beam_int survey f ra_pt dec_pt lst rows =
     map (\<lambda>r. calc_beam_rep survey (ra f ! r) (dec f ! r) ra_pt dec_pt lst) rows"

text \<open>
  \<^verbatim>\<open>p_ix = ~np.isnan(int_pro)\<close>, and an index pair narrowed by a boolean mask:
  \<^verbatim>\<open>(ix[0][msk], ix[1][msk])\<close>.
\<close>

definition p_ix_of :: "survey \<Rightarrow> rfrbs \<Rightarrow> fl \<Rightarrow> fl \<Rightarrow> fl \<Rightarrow> nat list \<times> nat list \<Rightarrow> bool list" where
  "p_ix_of survey f ra_pt dec_pt lst t_ix =
     map (\<lambda>x. \<not> isnan x) (beam_int survey f ra_pt dec_pt lst (fst t_ix))"

definition select2 :: "bool list \<Rightarrow> nat list \<times> nat list \<Rightarrow> nat list \<times> nat list" where
  "select2 msk ix = (select msk (fst ix), select msk (snd ix))"

text \<open>\<^verbatim>\<open>snr_m = (frbs.snr[s_peak_ix] > survey.snr_limit)\<close>.\<close>

definition snr_m_of :: "survey \<Rightarrow> fl list list \<Rightarrow> nat list \<times> nat list \<Rightarrow> bool list" where
  "snr_m_of survey snr' ix = map (\<lambda>v. fl_gt v (snr_limit survey)) (get2 snr' ix)"

text \<open>
  Lines 283-336: the arrays \<^verbatim>\<open>s_peak\<close>, \<^verbatim>\<open>fluence\<close> and \<^verbatim>\<open>snr\<close> of the frame after the
  window, from the beam intensities \<open>int_pro\<close> of the bursts \<open>t_ix\<close> and their mask
  \<open>p_ix\<close>.
\<close>

definition window_frbs ::
  "survey \<Rightarrow> rfrbs \<Rightarrow> fl list \<Rightarrow> bool list \<Rightarrow> nat list \<times> nat list \<Rightarrow> rfrbs" where
  "window_frbs survey f int_pro p_ix t_ix =
     (let tp_ix = select2 p_ix t_ix;
          tnp_ix = select2 (map Not p_ix) t_ix;
          (tp_unique, n_bursts) = unique_counts (fst tp_ix);
          int_pro1 = select p_ix int_pro;
          s_peak1 = set2 (s_peak f) tp_ix (map2 fl_mul (get2 (s_peak f) tp_ix) int_pro1);
          s_peak2 = fill2 s_peak1 tnp_ix NaN;
          w_eff_v = (case w_eff f of
                       A2 m \<Rightarrow> get2 m tp_ix
                     | A1 xs \<Rightarrow> np_repeat (get1 xs tp_unique) n_bursts);
          s_peak_v = get2 s_peak2 tp_ix;
          fluence1 = set2 (fluence f) tp_ix (map2 (calc_fluence survey) s_peak_v w_eff_v);
          w_arr_v = (case w_arr f of
                       A2 m \<Rightarrow> get2 m tp_ix
                     | A1 xs \<Rightarrow> np_repeat (get1 xs tp_unique) n_bursts);
          T_sys_v = np_repeat (get1 (T_sys f) tp_unique) n_bursts;
          snr1 = set2 (snr f) tp_ix (map3 (calc_snr survey) s_peak_v w_arr_v T_sys_v)
      in f\<lparr>s_peak := s_peak2, fluence := fluence1, snr := snr1\<rparr>)"

text \<open>The whole step: the counters and flags of lines 276-281 and 350-357 around it.\<close>

definition window_step ::
  "survey \<Rightarrow> rfrbs survey_pop \<Rightarrow> fl \<Rightarrow> fl \<Rightarrow> fl \<Rightarrow> nat list \<times> nat list
   \<Rightarrow> rfrbs survey_pop \<times> (nat list \<times> nat list)" where
  "window_step survey self ra_pt dec_pt lst t_ix =
     (let f = frbs self;
          int_pro = beam_int survey f ra_pt dec_pt lst (fst t_ix);
          p_ix = p_ix_of survey f ra_pt dec_pt lst t_ix;
          tp_ix = select2 p_ix t_ix;
          tnp_ix = select2 (map Not p_ix) t_ix;
          tp_unique = fst (unique_counts (fst tp_ix));
          br = (burst_rate self)
                 \<lparr>pointing := pointing (burst_rate self) + int (length (fst tnp_ix))\<rparr>;
          not_in_pointing = set1 (srcs_not_in_pointing self) tp_unique False;
          f' = window_frbs survey f int_pro p_ix t_ix;
          snr_m = snr_m_of survey (snr f') tp_ix;
          s_peak_ix = select2 snr_m tp_ix;
          br1 = br\<lparr>faint := faint br
                    + (int (length (fst tp_ix)) - int (length (fst s_peak_ix)))\<rparr>;
          not_bright = set1 (srcs_not_bright self) (np_unique (fst s_peak_ix)) False
      in (self\<lparr>frbs := f', burst_rate := br1,
                srcs_not_in_pointing := not_in_pointing,
                srcs_not_bright := not_bright\<rparr>,
          s_peak_ix))"

text \<open>
  \<^verbatim>\<open>_iter_pointings(ra_pt, dec_pt, lst, t_min, t_max)\<close>: the bursts in the time window
  (line 257), then the step above.
\<close>

definition iter_pointings ::
  "survey \<Rightarrow> rfrbs survey_pop \<Rightarrow> fl \<Rightarrow> fl \<Rightarrow> fl \<Rightarrow> fl \<Rightarrow> fl
   \<Rightarrow> error + (rfrbs survey_pop \<times> (nat list \<times> nat list))" where
  "iter_pointings survey self ra_pt dec_pt lst t_min t_max =
     (case fast_where (time (frbs self)) t_min t_max of
        Inl err \<Rightarrow> Inl err
      | Inr t_ix \<Rightarrow> Inr (window_step survey self ra_pt dec_pt lst t_ix))"

subsection \<open>The pointing loop and \<^verbatim>\<open>det_repeaters\<close>\<close>

text \<open>
  \<^verbatim>\<open>np.arange(0, stop, step)\<close> on floats has \<open>ceil(stop / step)\<close> elements \<open>k * step\<close>;
  a zero step raises ValueError.
\<close>

definition arange0 :: "real \<Rightarrow> real \<Rightarrow> error + real list" where
  "arange0 stop step =
     (if step = 0
      then Inl (ValueError (if stop = 0 then ''arange: cannot compute length''
                            else ''Maximum allowed size exceeded''))
      else Inr (map (\<lambda>k. real k * step) [0 ..< nat \<lceil>stop / step\<rceil>]))"

text \<open>Python's \<^verbatim>\<open>x % y\<close> on floats, and the local sidereal times of lines 187-188.\<close>

definition py_mod :: "real \<Rightarrow> real \<Rightarrow> real" where
  "py_mod x y = x - y * of_int \<lfloor>x / y\<rfloor>"

definition lsts_of :: "ext \<Rightarrow> real list \<Rightarrow> real list" where
  "lsts_of e times' = map (\<lambda>t. py_mod (t * 360 * (24 / 23.9344696)) 360 + uniform e) times'"

text \<open>\<^verbatim>\<open>time_mask = (frbs.time <= times[-1])\<close>.\<close>

definition time_mask_of :: "real \<Rightarrow> fl list list \<Rightarrow> bool list list" where
  "time_mask_of t_end tm = map (map (\<lambda>x. fl_le x (Fin t_end))) tm"

text \<open>
  The loop of lines 219-227 over the pointing numbers \<open>is\<close>; the state is \<^verbatim>\<open>self\<close> and
  the two lists of \<^verbatim>\<open>keep\<close>. With no pointing to take, \<^verbatim>\<open>ra_p[i % survey.n_pointings]\<close>
  raises.
\<close>

fun run_pointings ::
  "survey \<Rightarrow> real list \<Rightarrow> real list \<Rightarrow> nat list
   \<Rightarrow> rfrbs survey_pop \<times> (nat list \<times> nat list)
   \<Rightarrow> error + (rfrbs survey_pop \<times> (nat list \<times> nat list))" where
  "run_pointings survey times' lst [] st = Inr st"
| "run_pointings survey times' lst (i # is) st =
     (if pointings survey = [] then Inl (IndexError ''index 0 is out of bounds for axis 0 with size 0'')
      else
        let (ra_p, dec_p) = pointings survey ! (i mod length (pointings survey)) in
        case iter_pointings survey (fst st) ra_p dec_p (Fin (lst ! i))
               (Fin (times' ! i)) (Fin (times' ! (i + 1))) of
          Inl err \<Rightarrow> Inl err
        | Inr (self', xy) \<Rightarrow>
            run_pointings survey times' lst is
              (self', (fst (snd st) @ fst xy, snd (snd st) @ snd xy)))"

text \<open>
  Lines 178-216 of \<^verbatim>\<open>det_repeaters\<close>, up to the pointing loop: the pointing times, the
  cut at the end of the last pointing and its too-late counts, the fresh arrays and
  flags. \<open>t_obs_days\<close> is \<^verbatim>\<open>t_obs\<close> in fractional days, \<open>max_t_of\<close> is \<^verbatim>\<open>survey.n_days\<close>,
  which \<^verbatim>\<open>__init__\<close> has set to the population's when it was None. The result is \<^verbatim>\<open>times\<close>, \<^verbatim>\<open>lst\<close> and the updated \<^verbatim>\<open>self\<close>.
\<close>

definition t_obs_days :: "survey \<Rightarrow> real" where
  "t_obs_days survey = t_obs survey / 86400"

definition max_t_of :: "survey \<Rightarrow> 'f survey_pop \<Rightarrow> real" where
  "max_t_of survey self = (case survey_n_days survey of Some d \<Rightarrow> d | None \<Rightarrow> n_days self)"

definition pointing_times :: "survey \<Rightarrow> rfrbs survey_pop \<Rightarrow> error + real list" where
  "pointing_times survey self =
     arange0 (max_t_of survey self + t_obs_days survey) (t_obs_days survey)"

definition before_pointings ::
  "ext \<Rightarrow> survey \<Rightarrow> rfrbs survey_pop \<Rightarrow> error + (real list \<times> real list \<times> rfrbs survey_pop)" where
  "before_pointings e survey self =
     (case pointing_times survey self of
        Inl err \<Rightarrow> Inl err
      | Inr times' \<Rightarrow>
          if times' = [] then Inl (IndexError ''index -1 is out of bounds for axis 0 with size 0'')
          else
            let lsts = lsts_of e times';
                f = frbs self;
                time_mask = time_mask_of (last times') (time f);
                f1 = apply_cells time_mask f;
                br = (burst_rate self)
                       \<lparr>late := late (burst_rate self)
                          + sum_list (map2 (\<lambda>n m. int n - count_nonzero m)
                                        (n_brst_pr_src self) time_mask)\<rparr>;
                sr = (source_rate self)
                       \<lparr>late := late (source_rate self)
                          + (int (length time_mask) - int (length (time f1)))\<rparr>;
                f2 = f1\<lparr>fluence := map (map (\<lambda>x. NaN)) (time f1),
                        snr := map (map (\<lambda>x. NaN)) (time f1)\<rparr>;
                lst = butlast lsts
            in Inr (times', lst,
                    self\<lparr>frbs := f2, burst_rate := br, source_rate := sr,
                         srcs_not_in_pointing := map (\<lambda>i. True) (index f2),
                         srcs_not_bright := map (\<lambda>i. True) (index f2)\<rparr>))"

text \<open>Lines 229-245 of \<^verbatim>\<open>det_repeaters\<close>, after the pointing loop has left \<open>keep\<close>.\<close>

definition after_pointings ::
  "ext \<Rightarrow> rfrbs survey_pop \<Rightarrow> nat list \<times> nat list \<Rightarrow> rfrbs survey_pop" where
  "after_pointings e self keep =
     (let sr1 = (source_rate self)\<lparr>pointing := count_nonzero (srcs_not_in_pointing self)\<rparr>;
          not_bright = map2 (\<lambda>nb nip. if nip then False else nb)
                         (srcs_not_bright self) (srcs_not_in_pointing self);
          sr2 = sr1\<lparr>faint := count_nonzero not_bright\<rparr>;
          snr_mask = fill2 (map (map (\<lambda>x. False)) (snr (frbs self))) keep True;
          f3 = apply_cells snr_mask (frbs self);
          br1 = (burst_rate self)\<lparr>det := sum_list (map count_nonzero snr_mask)\<rparr>;
          sr3 = sr2\<lparr>det := int (length (np_unique (fst keep)))\<rparr>;
          f4 = clean_up e f3
      in self\<lparr>frbs := f4, source_rate := sr3, burst_rate := br1,
              srcs_not_bright := not_bright\<rparr>)"

text \<open>
  \<^verbatim>\<open>det_repeaters\<close>; the loop runs over \<^verbatim>\<open>np.arange(max_n_pointings)\<close>, and the rates are
  calculated last (line 248).
\<close>

definition det_repeaters :: "ext \<Rightarrow> survey \<Rightarrow> rfrbs survey_pop \<Rightarrow> error + rfrbs survey_pop" where
  "det_repeaters e survey self =
     (case before_pointings e survey self of
        Inl err \<Rightarrow> Inl err
      | Inr (times', lst, self1) \<Rightarrow>
          let max_n_pointings = length times' - 1 in
          case run_pointings survey times' lst [0 ..< max_n_pointings] (self1, ([], [])) of
            Inl err \<Rightarrow> Inl err
          | Inr (self2, keep) \<Rightarrow> calc_rates e survey (after_pointings e self2 keep))"

subsection \<open>Construction of a repeater survey population\<close>

text \<open>\<^verbatim>\<open>region_mask = survey.in_region(frbs.ra, frbs.dec, frbs.gl, frbs.gb)\<close>.\<close>

definition region_mask_rep :: "survey \<Rightarrow> rfrbs \<Rightarrow> bool list" where
  "region_mask_rep survey f =
     map (\<lambda>i. in_region survey (ra f ! i) (dec f ! i) (gl f ! i) (gb f ! i)) [0 ..< length (ra f)]"

text \<open>
  Lines 94-115 on a repeater frame: the survey's functions applied elementwise, a
  per-source value broadcast along its row of bursts.
\<close>

definition observe_rep :: "cosmic_pop \<Rightarrow> survey \<Rightarrow> bool \<Rightarrow> rfrbs \<Rightarrow> rfrbs" where
  "observe_rep cosmic_pop survey scat' f =
     (let t_dm' = map (calc_dm_smear survey) (dm f);
          t_scat' = (if scat' then Some (map (calc_scat survey) (dm f)) else t_scat f);
          Ts = map (\<lambda>i. calc_Ts survey (gl f ! i) (gb f ! i)) [0 ..< length (gl f)];
          t_scat_at = (\<lambda>r. map_option (\<lambda>ts. ts ! r) t_scat');
          w_eff' = (case w_arr f of
                      A1 ws \<Rightarrow> A1 (map (\<lambda>r. calc_w_eff survey (ws ! r) (t_dm' ! r) (t_scat_at r))
                                     [0 ..< length ws])
                    | A2 m \<Rightarrow> A2 (map (\<lambda>r. map (\<lambda>w. calc_w_eff survey w (t_dm' ! r) (t_scat_at r))
                                              (m ! r))
                                    [0 ..< length m]));
          s_peak' = map (\<lambda>r. map (\<lambda>c. calc_s_peak survey (si f ! r) (lum_bol f ! r ! c) (z f ! r)
                                       (dist_co f ! r) (arr_at (w_arr f) r c) (arr_at w_eff' r c)
                                       (f_min cosmic_pop) (f_max cosmic_pop))
                                [0 ..< length (lum_bol f ! r)])
                      [0 ..< length (lum_bol f)]
      in f\<lparr>t_dm := t_dm', t_scat := t_scat', T_sky := map fst Ts, T_sys := map snd Ts,
           w_eff := w_eff', s_peak := s_peak'\<rparr>)"

text \<open>
  Lines 71-115 for a repeater population, then the call of \<^verbatim>\<open>det_repeaters\<close> (line 119).
  \<^verbatim>\<open>frbs.time.size\<close> counts every cell of the matrix, the NaN padding included.
\<close>

definition prepare_repeaters :: "cosmic_pop \<Rightarrow> survey \<Rightarrow> rfrbs survey_pop \<Rightarrow> rfrbs survey_pop" where
  "prepare_repeaters cosmic_pop survey self =
     (let f = frbs self;
          sr = (source_rate self)\<lparr>tot := n_srcs cosmic_pop\<rparr>;
          br = (burst_rate self)\<lparr>tot := int (sum_list (map length (time f)))\<rparr>;
          n_brst = map (\<lambda>row. length (filter (\<lambda>x. \<not> isnan x) row)) (time f);
          br1 = br\<lparr>late := late br + (tot br - int (sum_list n_brst))\<rparr>;
          sr1 = sr\<lparr>late := late sr + (tot sr - int (length n_brst))\<rparr>;
          region_mask = region_mask_rep survey f;
          f1 = apply_rows region_mask f;
          sr2 = sr1\<lparr>out := int (length (filter Not region_mask))\<rparr>;
          br2 = br1\<lparr>out := int (sum_list (select (map Not region_mask) n_brst))\<rparr>;
          n_brst1 = select region_mask n_brst;
          f2 = observe_rep cosmic_pop survey (scat self) f1
      in self\<lparr>frbs := f2, source_rate := sr2, burst_rate := br2, n_brst_pr_src := n_brst1\<rparr>)"

definition init_repeaters ::
  "ext \<Rightarrow> cosmic_pop \<Rightarrow> survey \<Rightarrow> rfrbs survey_pop \<Rightarrow> error + rfrbs survey_pop" where
  "init_repeaters e cosmic_pop survey self =
     det_repeaters e survey (prepare_repeaters cosmic_pop survey self)"

subsection \<open>\<^verbatim>\<open>SurveyPopulation(cosmic_pop, survey, scat, scin, mute, scale_by_area)\<close>\<close>

datatype result = OneOffPop "(frb list) survey_pop" | RepeaterPop "rfrbs survey_pop"

definition not_generated_msg :: string where
  "not_generated_msg = ''You may have forgotten to generate your CosmicPopulation''"

definition scin_repeaters_msg :: string where
  "scin_repeaters_msg = ''Scintillation is currently not implemented for RepeaterPopulations''"

text \<open>
  \<^verbatim>\<open>__init__\<close>: the checks of lines 35-43 and 65-69, then the pipeline of the
  population's kind. (\<^verbatim>\<open>mute\<close> only prints.)
\<close>

definition SurveyPopulation ::
  "ext \<Rightarrow> cosmic_pop \<Rightarrow> survey \<Rightarrow> bool \<Rightarrow> bool \<Rightarrow> bool \<Rightarrow> error + result" where
  "SurveyPopulation e cosmic_pop survey scat' scin' scale_by_area' =
     (case cosmic_pop.frbs cosmic_pop of
        None \<Rightarrow> Inl (ValueError not_generated_msg)
      | Some fr \<Rightarrow>
          let survey' = set_n_days cosmic_pop survey in
          if pop_repeaters cosmic_pop \<and> scin' then Inl (ValueError scin_repeaters_msg)
          else
            (case fr of
               OneOffs rows \<Rightarrow>
                 map_sum id OneOffPop
                   (init_oneoffs e cosmic_pop survey'
                      (init_self cosmic_pop survey' scat' scin' scale_by_area' rows))
             | Repeaters f \<Rightarrow>
                 map_sum id RepeaterPop
                   (init_repeaters e cosmic_pop survey'
                      (init_self cosmic_pop survey' scat' scin' scale_by_area' f))))"

section \<open>Predicates used in the proofs\<close>

text \<open>
  \<^verbatim>\<open>Rates.scale_by_area\<close> is a parameter; this is what the counter identities need of
  it: it leaves the five source counters as they are.
\<close>

definition keeps_counters :: "(rates \<Rightarrow> rates) \<Rightarrow> bool" where
  "keeps_counters g \<longleftrightarrow>
     (\<forall>r. tot (g r) = tot r \<and> out (g r) = out r \<and> late (g r) = late r \<and>
          faint (g r) = faint r \<and> det (g r) = det r)"

text \<open>
  A flag array \<open>new\<close> is \<open>old\<close> with flags cleared only: same length, and a flag that
  is set in \<open>new\<close> was set in \<open>old\<close>.
\<close>

definition cleared_only :: "bool list \<Rightarrow> bool list \<Rightarrow> bool" where
  "cleared_only old new \<longleftrightarrow>
     length new = length old \<and> (\<forall>k < length old. new ! k \<longrightarrow> old ! k)"







section \<open>Worked examples\<close>

text \<open>
  A small survey, a one-off population and repeater populations on which the
  theorems below are run.
\<close>

definition example_survey :: survey where
  "example_survey =
     \<lparr>survey_name = ''survey'', survey_n_days = None, t_obs = 2592000, snr_limit = Fin 10,
      beam_size = 1, pointings = [(Fin 0, Fin 0)],
      in_region = (\<lambda>ra' dec' gl' gb'. fl_le (Fin 0) dec'),
      calc_dm_smear = (\<lambda>dm'. dm'),
      calc_scat = (\<lambda>dm'. dm'),
      calc_Ts = (\<lambda>gl' gb'. (Fin 0, Fin 1)),
      calc_w_eff = (\<lambda>w t ts. fl_add w t),
      calc_s_peak = (\<lambda>si' lum z' d w we lo hi. lum),
      calc_beam = (\<lambda>k. (Fin 1, Fin 0)),
      calc_beam_rep = (\<lambda>ra' dec' ra_p dec_p lst. if fl_le ra' (Fin 10) then Fin 1 else NaN),
      calc_fluence = fl_mul,
      calc_snr = (\<lambda>s w T. fl_div (fl_mul s w) T),
      calc_scint = (\<lambda>k ts d gl' gb' snr'. snr')\<rparr>"

definition example_ext :: ext where
  "example_ext = \<lparr>random = (\<lambda>k. 1 / 2), uniform = 0,
                  rates_scale_by_area = (\<lambda>r. r), clean_up = (\<lambda>f. f)\<rparr>"

definition example_frb :: "real \<Rightarrow> real \<Rightarrow> real \<Rightarrow> frb" where
  "example_frb dec' z' lum =
     \<lparr>frb.ra = Fin 0, frb.dec = Fin dec', frb.gl = Fin 0, frb.gb = Fin 0, frb.dm = Fin 1,
      frb.z = Fin z', frb.dist_co = Fin 1, frb.si = Fin 0, frb.lum_bol = Fin lum,
      frb.w_arr = Fin 1, frb.t_dm = NaN, frb.t_scat = None, frb.T_sky = NaN, frb.T_sys = NaN,
      frb.w_eff = NaN, frb.s_peak = NaN, frb.offset = NaN, frb.fluence = NaN, frb.snr = NaN\<rparr>"

definition example_rows :: "frb list" where
  "example_rows =
     [example_frb 1 0 5, example_frb (- 1) 0 50, example_frb 1 0 4, example_frb 1 3 50]"

definition example_oneoffs :: cosmic_pop where
  "example_oneoffs =
     \<lparr>pop_name = ''cosmic'', pop_vol_co_max = 1, pop_n_days = 20, n_srcs = 4,
      f_min = Fin 1, f_max = Fin 2, cosmic_pop.frbs = Some (OneOffs example_rows)\<rparr>"

definition example_prepared :: "(frb list) survey_pop" where
  "example_prepared =
     prepare_oneoffs example_oneoffs (set_n_days example_oneoffs example_survey)
       (init_self example_oneoffs (set_n_days example_oneoffs example_survey)
          False False True example_rows)"

definition example_detected :: "(frb list) survey_pop" where
  "example_detected =
     detect_oneoffs example_ext (set_n_days example_oneoffs example_survey) example_prepared"

definition example_rfrbs :: "real list \<Rightarrow> fl list list \<Rightarrow> fl list list \<Rightarrow> rfrbs" where
  "example_rfrbs decs tms lums =
     \<lparr>ra = map (\<lambda>d. Fin 0) decs, dec = map Fin decs, gl = map (\<lambda>d. Fin 0) decs,
      gb = map (\<lambda>d. Fin 0) decs, dm = map (\<lambda>d. Fin 1) decs, z = map (\<lambda>d. Fin 0) decs,
      dist_co = map (\<lambda>d. Fin 1) decs, si = map (\<lambda>d. Fin 0) decs,
      index = [0 ..< length decs], lum_bol = lums, w_arr = A1 (map (\<lambda>d. Fin 1) decs),
      time = tms, t_dm = [], t_scat = None, T_sky = [], T_sys = [], w_eff = A1 [],
      s_peak = [], fluence = [], snr = []\<rparr>"

definition example_repeaters :: "rfrbs \<Rightarrow> cosmic_pop" where
  "example_repeaters f =
     \<lparr>pop_name = ''cosmic'', pop_vol_co_max = 1, pop_n_days = 20,
      n_srcs = int (length (index f)), f_min = Fin 1, f_max = Fin 2,
      cosmic_pop.frbs = Some (Repeaters f)\<rparr>"

definition scenario_c :: rfrbs where
  "scenario_c = example_rfrbs [0] [[Fin 0.5, Fin 10.5, Fin 50.5]] [[Fin 10, Fin 30, Fin 30]]"

definition example_rprepared :: "rfrbs \<Rightarrow> rfrbs survey_pop" where
  "example_rprepared f =
     prepare_repeaters (example_repeaters f) (set_n_days (example_repeaters f) example_survey)
       (init_self (example_repeaters f) (set_n_days (example_repeaters f) example_survey)
          False False True f)"

definition example_window_self :: "rfrbs \<Rightarrow> rfrbs survey_pop" where
  "example_window_self f =
     (case before_pointings example_ext (set_n_days (example_repeaters f) example_survey)
             (example_rprepared f) of
        Inr (times', lst, self1) \<Rightarrow> self1
      | Inl err \<Rightarrow> example_rprepared f)"

definition example_survey10 :: survey where
  "example_survey10 = example_survey\<lparr>survey_n_days := Some 20, t_obs := 864000\<rparr>"

definition example_rprepared10 :: "rfrbs survey_pop" where
  "example_rprepared10 =
     prepare_repeaters (example_repeaters scenario_c) example_survey10
       (init_self (example_repeaters scenario_c) example_survey10 False False True scenario_c)"

definition example_start10 :: "real list \<times> real list \<times> rfrbs survey_pop" where
  "example_start10 = projr (before_pointings example_ext example_survey10 example_rprepared10)"

definition example_run10 :: "nat \<Rightarrow> rfrbs survey_pop \<times> (nat list \<times> nat list)" where
  "example_run10 k =
     projr (run_pointings example_survey10 (fst example_start10) (fst (snd example_start10))
              [0 ..< k] (snd (snd example_start10), ([], [])))"



definition scenario_edge :: rfrbs where
  "scenario_edge = example_rfrbs [0] [[Fin 0.5, Fin 30]] [[Fin 30, Fin 30]]"

definition example_rstart :: "rfrbs \<Rightarrow> real list \<times> real list \<times> rfrbs survey_pop" where
  "example_rstart f =
     projr (before_pointings example_ext (set_n_days (example_repeaters f) example_survey)
              (example_rprepared f))"

definition example_rloop :: "rfrbs \<Rightarrow> rfrbs survey_pop \<times> (nat list \<times> nat list)" where
  "example_rloop f =
     projr (run_pointings (set_n_days (example_repeaters f) example_survey)
              (fst (example_rstart f)) (fst (snd (example_rstart f)))
              [0 ..< length (fst (example_rstart f)) - 1]
              (snd (snd (example_rstart f)), ([], [])))"

definition example_rdetected :: "rfrbs \<Rightarrow> rfrbs survey_pop" where
  "example_rdetected f =
     after_pointings example_ext (fst (example_rloop f)) (snd (example_rloop f))"

section \<open>WindowSearch: what \<^verbatim>\<open>fast_where\<close> computes\<close>


lemma np_lt_trans: "np_lt a b \<Longrightarrow> np_lt b c \<Longrightarrow> np_lt a c"
  by (cases a; cases b; cases c) (auto simp: np_lt_def)








lemma length_cumsum_from [simp]: "length (cumsum_from acc xs) = length xs"
  by (induction xs arbitrary: acc) simp_all








lemma concat_filter_nonempty:
  "concat (map f (filter (\<lambda>x. f x \<noteq> []) xs)) = concat (map f xs)"
  by (induction xs) simp_all



text \<open>
  C1 (the code at a failing input). On the sorted row \<open>[1, 2]\<close> and the interval
  \<open>[1, 2]\<close>, \<open>fast_where\<close> returns the cell \<open>(0, 0)\<close> only, while the brute-force mask
  \<^verbatim>\<open>(a >= 1) & (a <= 2)\<close> of its docstring selects \<open>(0, 0)\<close> and \<open>(0, 1)\<close>: the value
  equal to \<open>max_v\<close> is left out, because the right end is searched with
  \<^verbatim>\<open>side='left'\<close> too. (\<open>fast_where_half_open\<close> above is what the code does on every
  input.)
\<close>

theorem fast_where_drops_upper_end:
  "row_sorted [Fin 1, Fin 2] \<and>
   fast_where [[Fin 1, Fin 2]] (Fin 1) (Fin 2) = Inr ([0], [0]) \<and>
   brute_force_where [[Fin 1, Fin 2]] (Fin 1) (Fin 2) = ([0, 0], [0, 1])"
  by (simp add: row_sorted_def fast_where_def searchsorted_def binsearch_left.simps np_lt_def
      np_repeat_def cumsum_def slice_assign_def Let_def brute_force_where_def np_where2_def
      fl_ge_def upt_rec [of 0])

lemma length_select_map: "length (select (map p xs) xs) = length (filter p xs)"
  by (induction xs) (simp_all add: select_def)

lemma count_nonzero_map: "count_nonzero (map p xs) = int (length (filter p xs))"
  by (induction xs) (simp_all add: count_nonzero_def)

lemma filter_Not_map: "length (filter Not (map p xs)) = length (filter (\<lambda>x. \<not> p x) xs)"
  by (induction xs) simp_all

lemma length_filter_split:
  "int (length (filter (\<lambda>x. \<not> p x) xs)) + int (length (filter p xs)) = int (length xs)"
  using sum_length_filter_compl [of p xs] by linarith

lemma length_select_mask:
  "length msk = length xs \<Longrightarrow> int (length (select msk xs)) = count_nonzero msk"
proof (induction msk arbitrary: xs)
  case Nil
  then show ?case by (simp add: select_def count_nonzero_def)
next
  case (Cons b msk)
  then obtain x xs' where xs: "xs = x # xs'" by (cases xs) auto
  with Cons.prems have "length msk = length xs'" by simp
  from Cons.IH [OF this] show ?case
    by (simp add: xs select_def count_nonzero_def)
qed

lemma count_nonzero_le: "count_nonzero msk \<le> int (length msk)"
  by (simp add: count_nonzero_def)

lemma length_snr_mask_oneoff [simp]: "length (snr_mask_oneoff survey rows) = length rows"
  by (simp add: snr_mask_oneoff_def)

lemma length_rate_mask_oneoff [simp]: "length (rate_mask_oneoff e rows) = length rows"
  by (simp add: rate_mask_oneoff_def)

lemma length_region_mask_oneoff [simp]: "length (region_mask_oneoff survey rows) = length rows"
  by (simp add: region_mask_oneoff_def)


lemma detect_oneoffs_frbs:
  "frbs (detect_oneoffs e survey self)
     = select (rate_mask_oneoff e (snr_survivors survey self)) (snr_survivors survey self)"
  by (simp add: detect_oneoffs_def snr_survivors_def Let_def)

lemma detect_oneoffs_late:
  "late (source_rate (detect_oneoffs e survey self))
     = int (length (snr_survivors survey self)) - int (length (frbs (detect_oneoffs e survey self)))"
  by (simp add: detect_oneoffs_def snr_survivors_def Let_def length_select_mask)



lemma calc_rates_oneoff_counters:
  assumes "calc_rates e survey self = Inr self'" "\<not> repeaters self"
    "keeps_counters (rates_scale_by_area e)"
  shows "tot (source_rate self') = tot (source_rate self)"
    "out (source_rate self') = out (source_rate self)"
    "late (source_rate self') = late (source_rate self)"
    "faint (source_rate self') = faint (source_rate self)"
    "det (source_rate self') = det (source_rate self)"
    "frbs self' = frbs self"
  using assms by (auto simp: calc_rates_def Let_def keeps_counters_def split: if_splits)

lemma det_oneoffs_counters:
  assumes "det_oneoffs e survey self = Inr self'" "\<not> repeaters self"
    "scale_by_area self \<longrightarrow> keeps_counters (rates_scale_by_area e)"
  shows "tot (source_rate self') = tot (source_rate (detect_oneoffs e survey self))"
    "out (source_rate self') = out (source_rate (detect_oneoffs e survey self))"
    "late (source_rate self') = late (source_rate (detect_oneoffs e survey self))"
    "faint (source_rate self') = faint (source_rate (detect_oneoffs e survey self))"
    "det (source_rate self') = det (source_rate (detect_oneoffs e survey self))"
    "frbs self' = frbs (detect_oneoffs e survey self)"
proof -
  have flags: "scale_by_area (detect_oneoffs e survey self) = scale_by_area self"
    "repeaters (detect_oneoffs e survey self) = repeaters self"
    by (simp_all add: detect_oneoffs_def Let_def)
  show "tot (source_rate self') = tot (source_rate (detect_oneoffs e survey self))"
    "out (source_rate self') = out (source_rate (detect_oneoffs e survey self))"
    "late (source_rate self') = late (source_rate (detect_oneoffs e survey self))"
    "faint (source_rate self') = faint (source_rate (detect_oneoffs e survey self))"
    "det (source_rate self') = det (source_rate (detect_oneoffs e survey self))"
    "frbs self' = frbs (detect_oneoffs e survey self)"
    using assms flags calc_rates_oneoff_counters [of e survey "detect_oneoffs e survey self" self']
    by (auto simp: det_oneoffs_def Let_def split: if_splits)
qed


lemma rate_mask_oneoff_nth:
  "k < length rows \<Longrightarrow>
   rate_mask_oneoff e rows ! k
     = fl_le (Fin (random e k)) (fl_div (Fin 1) (fl_add (Fin 1) (frb.z (rows ! k))))"
  by (simp add: rate_mask_oneoff_def limit_oneoff_def nth_enumerate_eq)

text \<open>
  C6. In \<^verbatim>\<open>det_oneoffs\<close>, the k-th source that passed the SNR threshold is kept if and
  only if its draw \<open>u\<close> satisfies \<open>u \<le> 1 / (1 + z)\<close>; the frame is narrowed by exactly
  this mask, and \<open>too_late\<close> ends up as the number of sources the mask removed.
\<close>

theorem oneoff_time_dilation:
  assumes "det_oneoffs e survey self = Inr self'" and "\<not> repeaters self"
    and "scale_by_area self \<longrightarrow> keeps_counters (rates_scale_by_area e)"
  shows "(\<forall>k < length (snr_survivors survey self).
            rate_mask_oneoff e (snr_survivors survey self) ! k
              = fl_le (Fin (random e k))
                  (fl_div (Fin 1) (fl_add (Fin 1) (frb.z (snr_survivors survey self ! k))))) \<and>
         frbs self' = select (rate_mask_oneoff e (snr_survivors survey self)) (snr_survivors survey self) \<and>
         late (source_rate self') = int (length (snr_survivors survey self)) - int (length (frbs self'))"
  using det_oneoffs_counters(3,6) [OF assms] detect_oneoffs_frbs [of e survey self]
    detect_oneoffs_late [of e survey self]
  by (simp add: rate_mask_oneoff_nth)

text \<open>
  C7. The area-scaling factor of \<^verbatim>\<open>calc_rates\<close> is
  \<open>beam_size * total / ((detected + too_late + too_faint) * area_sky)\<close> when the sum is
  positive and 1 when it is zero; for a one-off population it is stored in the source
  rate and \<^verbatim>\<open>scale_by_area()\<close> is called on it, for a repeater population the source
  rate only gets its days, name and volume.
\<close>

theorem area_scaling_factor:
  assumes "calc_rates e survey self = Inr self'"
  shows "(0 < det (source_rate self) + late (source_rate self) + faint (source_rate self) \<longrightarrow>
            calc_f_area survey (source_rate self)
              = beam_size survey * real_of_int (tot (source_rate self))
                / (real_of_int (det (source_rate self) + late (source_rate self) + faint (source_rate self))
                   * area_sky)) \<and>
         (det (source_rate self) + late (source_rate self) + faint (source_rate self) = 0 \<longrightarrow>
            calc_f_area survey (source_rate self) = 1) \<and>
         (\<not> repeaters self \<longrightarrow>
            source_rate self'
              = rates_scale_by_area e
                  ((source_rate self)
                     \<lparr>days := n_days self, rates.name := name self,
                      vol := real_of_int (tot (source_rate self))
                               / (vol_co_max self * (365.25 / n_days self)),
                      f_area := calc_f_area survey (source_rate self)\<rparr>)) \<and>
         (repeaters self \<longrightarrow>
            source_rate self'
              = (source_rate self)
                  \<lparr>days := n_days self, rates.name := name self,
                   vol := real_of_int (tot (source_rate self))
                            / (vol_co_max self * (365.25 / n_days self))\<rparr>)"
  using assms by (auto simp: calc_rates_def calc_f_area_def Let_def split: if_splits)

text \<open>
  C8. Constructing a survey population from a repeater population with scintillation
  enabled returns the error of lines 66-69, and no survey population.
\<close>

theorem scin_repeaters_rejected:
  assumes "pop_repeaters cosmic_pop"
  shows "SurveyPopulation e cosmic_pop survey scat' True scale_by_area'
         = Inl (ValueError scin_repeaters_msg)"
  using assms by (auto simp: SurveyPopulation_def pop_repeaters_def Let_def split: option.splits)



lemma length_select2:
  "length (fst (select2 msk ix)) = length (select msk (fst ix))"
  by (simp add: select2_def)

lemma length_select_le: "length (select msk xs) \<le> length xs"
proof -
  have "length (filter fst (zip msk xs)) \<le> length (zip msk xs)" by (rule length_filter_le)
  then show ?thesis by (simp add: select_def)
qed






lemma length_p_ix_of [simp]:
  "length (p_ix_of survey f ra_pt dec_pt lst t_ix) = length (fst t_ix)"
  by (simp add: p_ix_of_def beam_int_def)





lemma calc_rates_returns:
  "n_days self \<noteq> 0 \<Longrightarrow> vol_co_max self \<noteq> 0 \<Longrightarrow> \<exists>self'. calc_rates e survey self = Inr self'"
  by (simp add: calc_rates_def Let_def)

lemma example_detected_values:
  "map (\<lambda>g. g (source_rate example_detected)) [tot, out, late, faint, det] = [4, 1, 1, 1, 1]"
  "n_days example_detected = 20" "vol_co_max example_detected = 1"
  "\<not> repeaters example_detected" "scale_by_area example_detected"
  by code_simp+

lemma example_prepared_values:
  "n_days example_prepared = 20" "vol_co_max example_prepared = 1"
  "\<not> repeaters example_prepared" "scale_by_area example_prepared"
  "map frb.z (snr_survivors (set_n_days example_oneoffs example_survey) example_prepared) = [Fin 0, Fin 3]"
  "rate_mask_oneoff example_ext (snr_survivors (set_n_days example_oneoffs example_survey) example_prepared)
     = [True, False]"
  by code_simp+

lemma keeps_counters_example: "keeps_counters (rates_scale_by_area example_ext)"
  by (simp add: keeps_counters_def example_ext_def)



text \<open>
  The rejection on the repeater population of scenario C.
\<close>

theorem scin_repeaters_rejected_witness:
  "pop_repeaters (example_repeaters scenario_c) \<and>
   SurveyPopulation example_ext (example_repeaters scenario_c) example_survey False True True
     = Inl (ValueError ''Scintillation is currently not implemented for RepeaterPopulations'')"
  using scin_repeaters_rejected [of "example_repeaters scenario_c" example_ext example_survey False True]
  by (simp add: pop_repeaters_def example_repeaters_def scin_repeaters_msg_def)

text \<open>
  On the example: 4 sources, 3 of them inside, give the factor
  \<open>1 * 4 / (3 * area_sky)\<close>; with every counter at zero the factor is 1.
\<close>

theorem area_scaling_factor_witness:
  "\<exists>self' self''.
     calc_rates example_ext (set_n_days example_oneoffs example_survey) example_detected = Inr self' \<and>
     calc_f_area (set_n_days example_oneoffs example_survey) (source_rate example_detected)
       = 1 * 4 / (3 * area_sky) \<and>
     f_area (source_rate self') = 1 * 4 / (3 * area_sky) \<and>
     calc_rates example_ext (set_n_days example_oneoffs example_survey) example_prepared = Inr self'' \<and>
     calc_f_area (set_n_days example_oneoffs example_survey) (source_rate example_prepared) = 1"
proof -
  let ?S = "set_n_days example_oneoffs example_survey"
  obtain self' where run: "calc_rates example_ext ?S example_detected = Inr self'"
    using calc_rates_returns [of example_detected] example_detected_values(2,3) by auto
  obtain self'' where run0: "calc_rates example_ext ?S example_prepared = Inr self''"
    using calc_rates_returns [of example_prepared] example_prepared_values(1,2) by auto
  have vals: "tot (source_rate example_detected) = 4" "det (source_rate example_detected) = 1"
    "late (source_rate example_detected) = 1" "faint (source_rate example_detected) = 1"
    using example_detected_values(1) by simp_all
  have vals0: "det (source_rate example_prepared) + late (source_rate example_prepared)
               + faint (source_rate example_prepared) = 0"
    by code_simp
  have beam: "beam_size ?S = 1" by (simp add: set_n_days_def example_survey_def)
  have id: "rates_scale_by_area example_ext = (\<lambda>r. r)" by (simp add: example_ext_def)
  from area_scaling_factor [OF run] vals beam example_detected_values(4)
  have "calc_f_area ?S (source_rate example_detected) = 1 * 4 / (3 * area_sky)"
    and "f_area (source_rate self') = calc_f_area ?S (source_rate example_detected)"
    by (simp_all add: id)
  moreover from area_scaling_factor [OF run0] vals0
  have "calc_f_area ?S (source_rate example_prepared) = 1" by simp
  ultimately show ?thesis using run run0
    by (intro exI [of _ self'] exI [of _ self''] conjI) simp_all
qed

text \<open>
  On the example: of the two sources above the threshold, the one at \<open>z = 3\<close> has
  \<open>1 / (1 + z) = 1/4 < 1/2 = u\<close> and is removed, and \<open>too_late = 1\<close>.
\<close>

theorem oneoff_time_dilation_witness:
  "\<exists>self'.
     det_oneoffs example_ext (set_n_days example_oneoffs example_survey) example_prepared = Inr self' \<and>
     \<not> repeaters example_prepared \<and>
     keeps_counters (rates_scale_by_area example_ext) \<and>
     map frb.z (snr_survivors (set_n_days example_oneoffs example_survey) example_prepared)
       = [Fin 0, Fin 3] \<and>
     rate_mask_oneoff example_ext
         (snr_survivors (set_n_days example_oneoffs example_survey) example_prepared) ! 1
       = fl_le (Fin (1 / 2)) (fl_div (Fin 1) (fl_add (Fin 1) (Fin 3))) \<and>
     map frb.z (frbs self') = [Fin 0] \<and>
     late (source_rate self') = 1"
proof -
  let ?S = "set_n_days example_oneoffs example_survey"
  let ?rows = "snr_survivors ?S example_prepared"
  obtain sp where "calc_rates example_ext ?S example_detected = Inr sp"
    using calc_rates_returns [of example_detected] example_detected_values(2,3) by auto
  then have run: "det_oneoffs example_ext ?S example_prepared = Inr sp"
    using example_detected_values(5) by (simp add: det_oneoffs_def example_detected_def Let_def)
  have z: "map frb.z ?rows = [Fin 0, Fin 3]" by (rule example_prepared_values(5))
  then have len: "length ?rows = 2" by (metis length_map length_Cons list.size(3) numeral_2_eq_2)
  have z1: "frb.z (?rows ! 1) = Fin 3"
    using z len by (metis nth_map one_less_numeral_iff semiring_norm(76) nth_Cons_0 nth_Cons_Suc One_nat_def)
  have rnd: "random example_ext 1 = 1 / 2" by (simp add: example_ext_def)
  have sel: "map frb.z (select [True, False] ?rows) = [Fin 0]"
    by code_simp
  from oneoff_time_dilation [OF run example_prepared_values(3)] keeps_counters_example
  have "\<forall>k < length ?rows. rate_mask_oneoff example_ext ?rows ! k
              = fl_le (Fin (random example_ext k)) (fl_div (Fin 1) (fl_add (Fin 1) (frb.z (?rows ! k))))"
    and "frbs sp = select (rate_mask_oneoff example_ext ?rows) ?rows"
    and "late (source_rate sp) = int (length ?rows) - int (length (frbs sp))"
    by simp_all
  then have "rate_mask_oneoff example_ext ?rows ! 1
         = fl_le (Fin (1 / 2)) (fl_div (Fin 1) (fl_add (Fin 1) (Fin 3)))"
    and "map frb.z (frbs sp) = [Fin 0]"
    and "late (source_rate sp) = 1"
    using len z1 rnd sel example_prepared_values(6)
      length_select_mask [of "[True, False]" ?rows]
    by (simp_all add: count_nonzero_def)
  with run example_prepared_values(3) keeps_counters_example z show ?thesis
    by (intro exI [of _ sp] conjI)
qed





text \<open>
  C4 (the code at a failing input). The one-off path computes the SNR from the
  attenuated peak flux, the effective width \<open>w_eff\<close> and the system temperature. The
  repeater path passes the intrinsic width \<open>w_arr\<close> instead: in the window \<open>[0, 30)\<close>
  of scenario C, where \<open>w_arr = 1\<close> and \<open>w_eff = 2\<close>, the SNR stored for the two bursts
  in the beam is \<open>calc_snr s_peak 1 T_sys\<close>, not \<open>calc_snr s_peak 2 T_sys\<close>.
\<close>

theorem repeater_snr_uses_w_arr:
  "frb.snr (beam_oneoff survey (k, s))
     = calc_snr survey (fl_mul (frb.s_peak s) (fst (calc_beam survey k))) (frb.w_eff s) (frb.T_sys s) \<and>
   (let survey' = set_n_days (example_repeaters scenario_c) example_survey;
        f' = frbs (fst (window_step survey' (example_window_self scenario_c)
                          (Fin 0) (Fin 0) (Fin 0) ([0, 0], [0, 1])))
    in get2 (s_peak f') ([0, 0], [0, 1]) = [Fin 10, Fin 30] \<and>
       w_eff f' = A1 [Fin 2] \<and> w_arr f' = A1 [Fin 1] \<and> T_sys f' = [Fin 1] \<and>
       get2 (snr f') ([0, 0], [0, 1])
         = [calc_snr survey' (Fin 10) (Fin 1) (Fin 1), calc_snr survey' (Fin 30) (Fin 1) (Fin 1)] \<and>
       get2 (snr f') ([0, 0], [0, 1])
         \<noteq> [calc_snr survey' (Fin 10) (Fin 2) (Fin 1), calc_snr survey' (Fin 30) (Fin 2) (Fin 1)])"
proof
  show "frb.snr (beam_oneoff survey (k, s))
     = calc_snr survey (fl_mul (frb.s_peak s) (fst (calc_beam survey k))) (frb.w_eff s) (frb.T_sys s)"
    by (simp add: beam_oneoff_def Let_def split_def)
  show "let survey' = set_n_days (example_repeaters scenario_c) example_survey;
        f' = frbs (fst (window_step survey' (example_window_self scenario_c)
                          (Fin 0) (Fin 0) (Fin 0) ([0, 0], [0, 1])))
    in get2 (s_peak f') ([0, 0], [0, 1]) = [Fin 10, Fin 30] \<and>
       w_eff f' = A1 [Fin 2] \<and> w_arr f' = A1 [Fin 1] \<and> T_sys f' = [Fin 1] \<and>
       get2 (snr f') ([0, 0], [0, 1])
         = [calc_snr survey' (Fin 10) (Fin 1) (Fin 1), calc_snr survey' (Fin 30) (Fin 1) (Fin 1)] \<and>
       get2 (snr f') ([0, 0], [0, 1])
         \<noteq> [calc_snr survey' (Fin 10) (Fin 2) (Fin 1), calc_snr survey' (Fin 30) (Fin 2) (Fin 1)]"
    by code_simp
qed

lemma set1_False_length [simp]: "length (set1 xs ix v) = length xs"
  unfolding set1_def by (induction ix arbitrary: xs) simp_all

lemma set1_False_nth: "set1 xs ix False ! k \<Longrightarrow> xs ! k"
  unfolding set1_def
proof (induction ix arbitrary: xs)
  case Nil
  then show ?case by simp
next
  case (Cons i ix)
  from Cons.IH [of "xs[i := False]"] Cons.prems have "xs[i := False] ! k" by simp
  then show ?case
    by (cases "k = i"; cases "i < length xs") (simp_all add: list_update_beyond)
qed

lemma cleared_only_refl: "cleared_only xs xs"
  by (simp add: cleared_only_def)

lemma cleared_only_trans:
  "cleared_only xs ys \<Longrightarrow> cleared_only ys zs \<Longrightarrow> cleared_only xs zs"
  by (simp add: cleared_only_def)

lemma cleared_only_set1: "cleared_only xs (set1 xs ix False)"
  by (simp add: cleared_only_def set1_False_nth)

lemma window_step_flags:
  "cleared_only (srcs_not_in_pointing self)
     (srcs_not_in_pointing (fst (window_step survey self ra_pt dec_pt lst t_ix)))"
  "cleared_only (srcs_not_bright self)
     (srcs_not_bright (fst (window_step survey self ra_pt dec_pt lst t_ix)))"
  unfolding window_step_def Let_def by (simp_all add: cleared_only_set1)

lemma iter_pointings_flags:
  assumes "iter_pointings survey self ra_pt dec_pt lst t_min t_max = Inr (self', xy)"
  shows "cleared_only (srcs_not_in_pointing self) (srcs_not_in_pointing self')"
    and "cleared_only (srcs_not_bright self) (srcs_not_bright self')"
proof -
  from assms obtain t_ix where "window_step survey self ra_pt dec_pt lst t_ix = (self', xy)"
    by (auto simp: iter_pointings_def split: sum.splits)
  then have "self' = fst (window_step survey self ra_pt dec_pt lst t_ix)" by simp
  then show "cleared_only (srcs_not_in_pointing self) (srcs_not_in_pointing self')"
    and "cleared_only (srcs_not_bright self) (srcs_not_bright self')"
    by (simp_all add: window_step_flags)
qed

lemma run_pointings_flags:
  "run_pointings survey times' lst is st = Inr st' \<Longrightarrow>
   cleared_only (srcs_not_in_pointing (fst st)) (srcs_not_in_pointing (fst st')) \<and>
   cleared_only (srcs_not_bright (fst st)) (srcs_not_bright (fst st'))"
proof (induction "is" arbitrary: st)
  case Nil
  then show ?case by (simp add: cleared_only_refl)
next
  case (Cons i "is")
  from Cons.prems obtain self1 xy where
    step: "iter_pointings survey (fst st) (fst (pointings survey ! (i mod length (pointings survey))))
             (snd (pointings survey ! (i mod length (pointings survey))))
             (Fin (lst ! i)) (Fin (times' ! i)) (Fin (times' ! (i + 1))) = Inr (self1, xy)"
    and rest: "run_pointings survey times' lst is
                 (self1, (fst (snd st) @ fst xy, snd (snd st) @ snd xy)) = Inr st'"
    by (auto simp: split_def Let_def split: if_splits sum.splits)
  from Cons.IH [OF rest] iter_pointings_flags [OF step] show ?case
    by (auto intro: cleared_only_trans)
qed

lemma run_pointings_append:
  "run_pointings survey times' lst (is1 @ is2) st
   = (case run_pointings survey times' lst is1 st of
        Inl err \<Rightarrow> Inl err
      | Inr st' \<Rightarrow> run_pointings survey times' lst is2 st')"
  by (induction is1 arbitrary: st) (auto simp: split_def Let_def split: sum.splits)

lemma before_pointings_flags:
  assumes "before_pointings e survey self = Inr (times', lst, self1)"
  shows "list_all id (srcs_not_in_pointing self1)" "list_all id (srcs_not_bright self1)"
  using assms unfolding before_pointings_def Let_def
  by (auto simp: list_all_iff split: sum.splits if_splits)

lemma after_pointings_flags:
  "srcs_not_in_pointing (after_pointings e self keep) = srcs_not_in_pointing self"
  "length (srcs_not_in_pointing self) = length (srcs_not_bright self) \<Longrightarrow>
   cleared_only (srcs_not_bright self) (srcs_not_bright (after_pointings e self keep))"
  unfolding after_pointings_def Let_def by (simp_all add: cleared_only_def)

text \<open>
  C9. The two flag arrays are all true when the pointing loop starts, keep their
  length, and a flag that is false after \<open>i\<close> iterations is false after \<open>j \<ge> i\<close>
  iterations.
\<close>

theorem flags_only_cleared:
  assumes start: "before_pointings e survey self = Inr (times', lst, self1)"
    and le: "i \<le> j"
    and run_i: "run_pointings survey times' lst [0 ..< i] (self1, ([], [])) = Inr (self_i, keep_i)"
    and run_j: "run_pointings survey times' lst [0 ..< j] (self1, ([], [])) = Inr (self_j, keep_j)"
  shows "list_all id (srcs_not_in_pointing self1) \<and> list_all id (srcs_not_bright self1) \<and>
         length (srcs_not_in_pointing self_j) = length (srcs_not_in_pointing self_i) \<and>
         length (srcs_not_bright self_j) = length (srcs_not_bright self_i) \<and>
         (\<forall>k < length (srcs_not_in_pointing self_i).
            \<not> srcs_not_in_pointing self_i ! k \<longrightarrow> \<not> srcs_not_in_pointing self_j ! k) \<and>
         (\<forall>k < length (srcs_not_bright self_i).
            \<not> srcs_not_bright self_i ! k \<longrightarrow> \<not> srcs_not_bright self_j ! k)"
proof -
  have "[0 ..< j] = [0 ..< i] @ [i ..< j]"
    using le by (metis le_add_diff_inverse upt_add_eq_append zero_le)
  with run_i run_j
  have "run_pointings survey times' lst [i ..< j] (self_i, keep_i) = Inr (self_j, keep_j)"
    by (simp add: run_pointings_append)
  from run_pointings_flags [OF this]
  have "cleared_only (srcs_not_in_pointing self_i) (srcs_not_in_pointing self_j)"
    and "cleared_only (srcs_not_bright self_i) (srcs_not_bright self_j)"
    by simp_all
  with before_pointings_flags [OF start] show ?thesis
    by (auto simp: cleared_only_def)
qed

lemma example_loop10:
  "before_pointings example_ext example_survey10 example_rprepared10
     = Inr (fst example_start10, fst (snd example_start10), snd (snd example_start10))"
  "run_pointings example_survey10 (fst example_start10) (fst (snd example_start10))
     [0 ..< 1] (snd (snd example_start10), ([], []))
     = Inr (fst (example_run10 1), snd (example_run10 1))"
  "run_pointings example_survey10 (fst example_start10) (fst (snd example_start10))
     [0 ..< 2] (snd (snd example_start10), ([], []))
     = Inr (fst (example_run10 2), snd (example_run10 2))"
  "fst example_start10 = [0, 10, 20]"
  "srcs_not_in_pointing (snd (snd example_start10)) = [True]"
  "srcs_not_in_pointing (fst (example_run10 1)) = [False]"
  "srcs_not_bright (fst (example_run10 1)) = [True]"
  "srcs_not_bright (fst (example_run10 2)) = [False]"
  by code_simp+

text \<open>
  Scenario C observed in two windows of ten days: the source is in the first pointing
  (its flag is cleared and stays cleared) and becomes bright in the second.
\<close>

theorem flags_only_cleared_witness:
  "\<exists>times' lst self1 self_1 keep_1 self_2 keep_2.
     before_pointings example_ext example_survey10 example_rprepared10 = Inr (times', lst, self1) \<and>
     (1::nat) \<le> 2 \<and>
     run_pointings example_survey10 times' lst [0 ..< 1] (self1, ([], [])) = Inr (self_1, keep_1) \<and>
     run_pointings example_survey10 times' lst [0 ..< 2] (self1, ([], [])) = Inr (self_2, keep_2) \<and>
     times' = [0, 10, 20] \<and>
     srcs_not_in_pointing self1 = [True] \<and>
     srcs_not_in_pointing self_1 = [False] \<and> srcs_not_bright self_1 = [True] \<and>
     srcs_not_in_pointing self_2 = [False] \<and> srcs_not_bright self_2 = [False]"
proof -
  note v = example_loop10
  have le: "(1::nat) \<le> 2" by simp
  from flags_only_cleared [OF v(1) le v(2) v(3)] v(6)
  have "length (srcs_not_in_pointing (fst (example_run10 2))) = 1"
    "\<not> srcs_not_in_pointing (fst (example_run10 2)) ! 0"
    by simp_all
  then have "srcs_not_in_pointing (fst (example_run10 2)) = [False]"
    by (cases "srcs_not_in_pointing (fst (example_run10 2))") simp_all
  with v le show ?thesis
    by (intro exI [of _ "fst example_start10"] exI [of _ "fst (snd example_start10)"]
        exI [of _ "snd (snd example_start10)"] exI [of _ "fst (example_run10 1)"]
        exI [of _ "snd (example_run10 1)"] exI [of _ "fst (example_run10 2)"]
        exI [of _ "snd (example_run10 2)"] conjI)
qed















subsection \<open>Burst-level bookkeeping before the pointing loop\<close>


lemma select_Nil [simp]: "select [] xs = []" "select msk [] = []"
  by (simp_all add: select_def)





lemma time_apply_rows [simp]: "time (apply_rows msk f) = select msk (time f)"
  by (simp add: apply_rows_def)

lemma ra_apply_rows [simp]: "ra (apply_rows msk f) = select msk (ra f)"
  by (simp add: apply_rows_def)

lemma time_observe_rep [simp]: "time (observe_rep cosmic_pop survey scat' f) = time f"
  by (simp add: observe_rep_def Let_def split_def)

lemma length_region_mask_rep [simp]: "length (region_mask_rep survey f) = length (ra f)"
  by (simp add: region_mask_rep_def)









subsection \<open>The bursts of a window\<close>












subsection \<open>One window\<close>






subsection \<open>The pointing loop\<close>












subsection \<open>The whole repeater pipeline\<close>

lemma calc_rates_burst_counters:
  assumes "calc_rates e survey self = Inr self'"
  shows "tot (burst_rate self') = tot (burst_rate self)"
    "out (burst_rate self') = out (burst_rate self)"
    "late (burst_rate self') = late (burst_rate self)"
    "pointing (burst_rate self') = pointing (burst_rate self)"
    "faint (burst_rate self') = faint (burst_rate self)"
    "det (burst_rate self') = det (burst_rate self)"
  using assms by (auto simp: calc_rates_def Let_def split: if_splits)



lemma det_repeaters_eval:
  assumes "before_pointings e survey self = Inr (times', lst, self1)"
    "run_pointings survey times' lst [0 ..< length times' - 1] (self1, ([], [])) = Inr (self2, keep)"
  shows "det_repeaters e survey self = calc_rates e survey (after_pointings e self2 keep)"
  using assms unfolding det_repeaters_def Let_def by simp

lemma SurveyPopulation_repeaters:
  assumes "cosmic_pop.frbs cosmic_pop = Some (Repeaters f)"
    and "\<not> (pop_repeaters cosmic_pop \<and> scin')"
  shows "SurveyPopulation e cosmic_pop survey scat' scin' sba
         = map_sum id RepeaterPop
             (det_repeaters e (set_n_days cosmic_pop survey)
                (prepare_repeaters cosmic_pop (set_n_days cosmic_pop survey)
                   (init_self cosmic_pop (set_n_days cosmic_pop survey) scat' scin' sba f)))"
  using assms by (auto simp: SurveyPopulation_def Let_def init_repeaters_def)









lemma example_pipeline:
  assumes bp: "before_pointings example_ext (set_n_days (example_repeaters f) example_survey)
                 (example_rprepared f) = Inr (example_rstart f)"
    and run: "run_pointings (set_n_days (example_repeaters f) example_survey)
                (fst (example_rstart f)) (fst (snd (example_rstart f)))
                [0 ..< length (fst (example_rstart f)) - 1]
                (snd (snd (example_rstart f)), ([], [])) = Inr (example_rloop f)"
    and nz: "n_days (example_rdetected f) \<noteq> 0" "vol_co_max (example_rdetected f) \<noteq> 0"
  obtains sp where
    "SurveyPopulation example_ext (example_repeaters f) example_survey False False True
     = Inr (RepeaterPop sp)"
    "map (\<lambda>g. g (burst_rate sp)) [tot, out, late, pointing, faint, det]
     = map (\<lambda>g. g (burst_rate (example_rdetected f))) [tot, out, late, pointing, faint, det]"
proof -
  let ?s = "set_n_days (example_repeaters f) example_survey"
  from calc_rates_returns [OF nz] obtain sp where
    cr: "calc_rates example_ext ?s (example_rdetected f) = Inr sp" by blast
  have bp': "before_pointings example_ext ?s (example_rprepared f)
             = Inr (fst (example_rstart f), fst (snd (example_rstart f)), snd (snd (example_rstart f)))"
    using bp by simp
  have run': "run_pointings ?s (fst (example_rstart f)) (fst (snd (example_rstart f)))
                [0 ..< length (fst (example_rstart f)) - 1]
                (snd (snd (example_rstart f)), ([], []))
              = Inr (fst (example_rloop f), snd (example_rloop f))"
    using run by simp
  have det: "det_repeaters example_ext ?s (example_rprepared f) = Inr sp"
    unfolding det_repeaters_eval [OF bp' run'] using cr by (simp add: example_rdetected_def)
  have fr: "cosmic_pop.frbs (example_repeaters f) = Some (Repeaters f)"
    by (simp add: example_repeaters_def)
  have ns: "\<not> (pop_repeaters (example_repeaters f) \<and> False)" by simp
  have "SurveyPopulation example_ext (example_repeaters f) example_survey False False True
        = Inr (RepeaterPop sp)"
    unfolding SurveyPopulation_repeaters [OF fr ns]
    using det by (simp add: example_rprepared_def)
  moreover have "map (\<lambda>g. g (burst_rate sp)) [tot, out, late, pointing, faint, det]
     = map (\<lambda>g. g (burst_rate (example_rdetected f))) [tot, out, late, pointing, faint, det]"
    using calc_rates_burst_counters [OF cr] by simp
  ultimately show ?thesis by (rule that)
qed




lemma scenario_edge_run:
  "before_pointings example_ext (set_n_days (example_repeaters scenario_edge) example_survey)
     (example_rprepared scenario_edge) = Inr (example_rstart scenario_edge)"
  "run_pointings (set_n_days (example_repeaters scenario_edge) example_survey)
     (fst (example_rstart scenario_edge)) (fst (snd (example_rstart scenario_edge)))
     [0 ..< length (fst (example_rstart scenario_edge)) - 1]
     (snd (snd (example_rstart scenario_edge)), ([], [])) = Inr (example_rloop scenario_edge)"
  "n_days (example_rdetected scenario_edge) \<noteq> 0" "vol_co_max (example_rdetected scenario_edge) \<noteq> 0"
  "map (\<lambda>g. g (burst_rate (example_rdetected scenario_edge))) [tot, out, late, pointing, faint, det]
   = [2, 0, 0, 0, 0, 1]"
  "fst (example_rstart scenario_edge) = [0, 30]"
  by code_simp+




text \<open>
  A burst exactly at \<open>times[-1]\<close> passes the cut \<^verbatim>\<open>frbs.time <= times[-1]\<close> and lies in no
  window \<open>[times[i], times[i+1])\<close>: it is in the total and in no other counter.
\<close>

lemma burst_at_last_pointing_end_uncounted:
  "\<exists>sp. SurveyPopulation example_ext (example_repeaters scenario_edge) example_survey False False True
          = Inr (RepeaterPop sp) \<and>
        tot (burst_rate sp) = 2 \<and>
        out (burst_rate sp) + late (burst_rate sp) + pointing (burst_rate sp)
          + faint (burst_rate sp) + det (burst_rate sp) = 1"
proof -
  note r = scenario_edge_run
  from example_pipeline [OF r(1-4)] obtain sp where
    sp: "SurveyPopulation example_ext (example_repeaters scenario_edge) example_survey False False True
         = Inr (RepeaterPop sp)"
    and cnt: "map (\<lambda>g. g (burst_rate sp)) [tot, out, late, pointing, faint, det]
     = map (\<lambda>g. g (burst_rate (example_rdetected scenario_edge))) [tot, out, late, pointing, faint, det]"
    by blast
  have "tot (burst_rate sp) = 2"
    "out (burst_rate sp) + late (burst_rate sp) + pointing (burst_rate sp)
          + faint (burst_rate sp) + det (burst_rate sp) = 1"
    using cnt r(5) by simp_all
  with sp show ?thesis by (intro exI [of _ sp] conjI)
qed

end
